theory Spec2Isabelle
  imports Complex_Main "HOL-Library.AList" "HOL-Library.Char_ord" "HOL-Library.List_Lexorder"
begin

section \<open>JSON values and Python dictionaries\<close>

text \<open>
  The pipeline of \<^verbatim>\<open>src/core/pipeline.py\<close> exchanges records as JSON objects, one per
  line of a JSON Lines file. A Python \<^verbatim>\<open>dict\<close> keeps its keys in insertion order, so an
  object is an association list whose keys are pairwise distinct; assigning an existing
  key keeps its position, assigning a new key appends it (\<open>AList.update\<close>).
  Python's \<^verbatim>\<open>float\<close> is idealised as a rational number.
\<close>

datatype json =
    JNull
  | JBool bool
  | JInt int
  | JFloat rat
  | JStr string
  | JArr "json list"
  | JObj "(string \<times> json) list"

type_synonym dict = "(string \<times> json) list"

text \<open>\<^verbatim>\<open>d.get(k)\<close>: the value, or \<^verbatim>\<open>None\<close> when the key is absent.\<close>

definition dget :: "dict \<Rightarrow> string \<Rightarrow> json" where
  "dget d k = (case map_of d k of None \<Rightarrow> JNull | Some v \<Rightarrow> v)"

text \<open>\<^verbatim>\<open>d.get(k, default)\<close>.\<close>

definition dget_default :: "dict \<Rightarrow> string \<Rightarrow> json \<Rightarrow> json" where
  "dget_default d k dflt = (case map_of d k of None \<Rightarrow> dflt | Some v \<Rightarrow> v)"

text \<open>\<^verbatim>\<open>k in d\<close>.\<close>

definition has_key :: "dict \<Rightarrow> string \<Rightarrow> bool" where
  "has_key d k = (map_of d k \<noteq> None)"

text \<open>\<^verbatim>\<open>d[k] = v\<close>.\<close>

definition dset :: "dict \<Rightarrow> string \<Rightarrow> json \<Rightarrow> dict" where
  "dset d k v = AList.update k v d"

text \<open>Python truthiness, as used by \<^verbatim>\<open>if not x\<close>.\<close>

fun truthy :: "json \<Rightarrow> bool" where
  "truthy JNull = False"
| "truthy (JBool b) = b"
| "truthy (JInt i) = (i \<noteq> 0)"
| "truthy (JFloat r) = (r \<noteq> 0)"
| "truthy (JStr s) = (s \<noteq> [])"
| "truthy (JArr xs) = (xs \<noteq> [])"
| "truthy (JObj d) = (d \<noteq> [])"

text \<open>\<^verbatim>\<open>isinstance(x, dict)\<close>.\<close>

fun is_dict :: "json \<Rightarrow> bool" where
  "is_dict (JObj d) = True"
| "is_dict _ = False"

text \<open>
  Dictionary keys. Lists and objects are unhashable (\<^verbatim>\<open>TypeError\<close>, the result
  \<open>None\<close>); numbers and booleans that compare equal are the same key
  (\<^verbatim>\<open>True == 1 == 1.0\<close>).
\<close>

datatype pykey = KNone | KStr string | KNum rat

fun hash_key :: "json \<Rightarrow> pykey option" where
  "hash_key JNull = Some KNone"
| "hash_key (JBool b) = Some (KNum (if b then 1 else 0))"
| "hash_key (JInt i) = Some (KNum (of_int i))"
| "hash_key (JFloat r) = Some (KNum r)"
| "hash_key (JStr s) = Some (KStr s)"
| "hash_key (JArr xs) = None"
| "hash_key (JObj d) = None"


section \<open>Files, faults and external collaborators\<close>

text \<open>
  One pipeline instance owns the Record Store \<^verbatim>\<open>output_file\<close>, the two Stage Logs
  \<^verbatim>\<open>output_file + ".infer.log"\<close> and \<^verbatim>\<open>output_file + ".eval.log"\<close>, the metric report,
  and for every rewritten file \<open>f\<close> the temporary file \<^verbatim>\<open>f + ".tmp_rewrite"\<close>. These paths
  are taken to be pairwise distinct (the report lives beside the store under another
  name).
\<close>

datatype path = Store | InferLog | EvalLog | Report | Tmp path

text \<open>
  A line of a file, as the readers see it: blank (\<^verbatim>\<open>not line.strip()\<close>), not parseable
  (\<^verbatim>\<open>json.JSONDecodeError\<close>), or a JSON text. \<^verbatim>\<open>json.dumps\<close> followed by
  \<^verbatim>\<open>json.loads\<close> is taken to be the identity on JSON values.
\<close>

datatype line = Blank | Garbage | Doc json

type_synonym world = "path \<Rightarrow> line list option"

text \<open>\<^verbatim>\<open>os.path.exists\<close>.\<close>

definition exists_file :: "world \<Rightarrow> path \<Rightarrow> bool" where
  "exists_file w f = (w f \<noteq> None)"

text \<open>
  The operations on files that may fail with an exception. Which of them fail is an
  input of the model.
\<close>

datatype io_op =
    OpRead path
  | OpOpenWrite path
  | OpWrite path nat
  | OpMove path path
  | OpRemove path
  | OpAppend path json

text \<open>An exception: the name of its type and its message \<^verbatim>\<open>str(e)\<close>.\<close>

datatype exn = Exn string string

text \<open>
  What a pipeline instance is given and what it calls. \<open>faults\<close> says which file
  operations fail. \<open>runners\<close> are the task paths for which \<^verbatim>\<open>Pipeline.__init__\<close> could
  build a \<^verbatim>\<open>TaskRunner\<close>. \<open>str_of\<close> renders a value that is not a string inside an
  f-string. \<open>generate_prompt\<close>, \<open>call_api\<close> and \<open>evaluate_response\<close> are the methods of
  the \<^verbatim>\<open>TaskRunner\<close> of a task path; each may raise. \<open>infer_elapsed\<close> and
  \<open>eval_elapsed\<close> are the differences \<^verbatim>\<open>time.time() - start_time\<close> the workers measure for
  an item. \<open>registry\<close> is \<^verbatim>\<open>TaskFactory._tasks\<close> followed by
  \<^verbatim>\<open>get_registered_metrics()\<close>. \<open>task_configs\<close> and \<open>model_params\<close> are
  \<^verbatim>\<open>self.task_configs\<close> and \<^verbatim>\<open>self.model_config.get('params', {})\<close>.
\<close>

record env =
  faults :: "io_op \<Rightarrow> bool"
  runners :: "string list"
  str_of :: "json \<Rightarrow> string"
  generate_prompt :: "string \<Rightarrow> dict \<Rightarrow> exn + (json \<times> json)"
  call_api :: "json \<Rightarrow> json \<Rightarrow> exn + json"
  evaluate_response :: "string \<Rightarrow> json \<Rightarrow> dict \<Rightarrow> exn + json"
  infer_elapsed :: "dict \<Rightarrow> rat"
  eval_elapsed :: "dict \<Rightarrow> rat"
  registry :: "string \<Rightarrow> string list option"
  task_configs :: "dict list"
  model_params :: json

section \<open>State Loader of the infer stage\<close>

type_synonym items_map = "(pykey \<times> dict) list"

text \<open>\<^verbatim>\<open>isinstance(answer, str) and answer.startswith("ERROR:")\<close>.\<close>

fun is_error_answer :: "json \<Rightarrow> bool" where
  "is_error_answer (JStr s) = (take 6 s = ''ERROR:'')"
| "is_error_answer _ = False"

definition is_valid_answer :: "json \<Rightarrow> bool" where
  "is_valid_answer answer = (answer \<noteq> JNull \<and> answer \<noteq> JStr [] \<and> \<not> is_error_answer answer)"

text \<open>
  \<^verbatim>\<open>_parse_infer\<close> on one non-blank line. A line that is not JSON, a JSON text that is
  not an object (\<^verbatim>\<open>AttributeError\<close>) and an unhashable \<^verbatim>\<open>sample_id\<close>
  (\<^verbatim>\<open>TypeError\<close>) leave the state as it was: the exception is caught and printed.
\<close>

fun parse_infer :: "line \<Rightarrow> items_map \<times> pykey set \<Rightarrow> items_map \<times> pykey set" where
  "parse_infer (Doc (JObj item)) (items, processed_ids) =
     (let item_id = dget item ''sample_id'' in
      if \<not> truthy item_id then (items, processed_ids)
      else case hash_key item_id of
          None \<Rightarrow> (items, processed_ids)
        | Some k \<Rightarrow>
            (let items' = AList.update k item items;
                 answer = dget item ''answer''
             in if is_valid_answer answer then (items', insert k processed_ids)
                else (items', processed_ids - {k})))"
| "parse_infer _ st = st"

text \<open>
  The loop \<^verbatim>\<open>for i, line in enumerate(f): if line.strip(): _parse_infer(line, ...)\<close>
  over the lines of one file.
\<close>

definition replay_infer :: "line list \<Rightarrow> items_map \<times> pykey set \<Rightarrow> items_map \<times> pykey set" where
  "replay_infer ls st = fold (\<lambda>l st. if l = Blank then st else parse_infer l st) ls st"

definition prompt_failed :: json where
  "prompt_failed = JStr ''ERROR: Prompt generation failed''"

text \<open>Step 3 of the loader, with the local flag \<^verbatim>\<open>retry_errors\<close> as a parameter.\<close>

definition infer_needs_processing :: "bool \<Rightarrow> pykey set \<Rightarrow> pykey \<times> dict \<Rightarrow> bool" where
  "infer_needs_processing retry_errors processed_ids kv =
     (case kv of (item_id, item) \<Rightarrow>
        item_id \<notin> processed_ids \<and>
        (let is_error = is_error_answer (dget item ''answer'') in
         (\<not> is_error \<or> (is_error \<and> retry_errors)) \<and> dget item ''prompt'' \<noteq> prompt_failed))"

definition infer_tasks :: "bool \<Rightarrow> items_map \<Rightarrow> pykey set \<Rightarrow> dict list" where
  "infer_tasks retry_errors items processed_ids =
     map snd (filter (infer_needs_processing retry_errors processed_ids) items)"

definition retry_errors :: bool where
  "retry_errors = True"

text \<open>
  \<^verbatim>\<open>_load_and_prepare_inference_tasks\<close> in two parts. First the store is read when it
  exists, then the inference log when it exists; a failing read and the case of no item
  and no store give \<^verbatim>\<open>(None, None)\<close>, written \<open>None\<close>. The state read is the map and
  \<^verbatim>\<open>processed_ids\<close>. Then the tasks are picked from the map.
\<close>

definition load_infer_state :: "env \<Rightarrow> world \<Rightarrow> (items_map \<times> pykey set) option" where
  "load_infer_state e w =
     (let r1 = (case w Store of
                  None \<Rightarrow> Some ([], {})
                | Some ls \<Rightarrow> if faults e (OpRead Store) then None
                             else Some (replay_infer ls ([], {})))
      in case r1 of
           None \<Rightarrow> None
         | Some st1 \<Rightarrow>
             (let r2 = (case w InferLog of
                          None \<Rightarrow> Some st1
                        | Some ls \<Rightarrow> if faults e (OpRead InferLog) then None
                                     else Some (replay_infer ls st1))
              in case r2 of
                   None \<Rightarrow> None
                 | Some st2 \<Rightarrow>
                     if fst st2 = [] \<and> \<not> exists_file w Store then None else Some st2))"

definition load_and_prepare_inference_tasks ::
    "env \<Rightarrow> world \<Rightarrow> (items_map \<times> dict list) option" where
  "load_and_prepare_inference_tasks e w =
     (case load_infer_state e w of
        None \<Rightarrow> None
      | Some (items, processed_ids) \<Rightarrow>
          Some (items, infer_tasks retry_errors items processed_ids))"

section \<open>State Loader of the evaluate stage\<close>

text \<open>
  \<^verbatim>\<open>isinstance(eval_results, dict) and not eval_results.get("error")\<close> and
  \<^verbatim>\<open>isinstance(eval_results, dict) and eval_results.get("error")\<close>.
\<close>

fun is_valid_eval :: "json \<Rightarrow> bool" where
  "is_valid_eval (JObj r) = (\<not> truthy (dget r ''error''))"
| "is_valid_eval _ = False"

fun is_eval_error :: "json \<Rightarrow> bool" where
  "is_eval_error (JObj r) = truthy (dget r ''error'')"
| "is_eval_error _ = False"

text \<open>
  \<^verbatim>\<open>_parse_eval\<close>: a line whose id is already in the map only contributes its
  \<^verbatim>\<open>evaluation_results\<close>, and only when it has that key.
\<close>

fun parse_eval :: "line \<Rightarrow> items_map \<times> pykey set \<Rightarrow> items_map \<times> pykey set" where
  "parse_eval (Doc (JObj item)) (items, evaluated_ids) =
     (let item_id = dget item ''sample_id'' in
      if \<not> truthy item_id then (items, evaluated_ids)
      else case hash_key item_id of
          None \<Rightarrow> (items, evaluated_ids)
        | Some k \<Rightarrow>
            (let cur = (case map_of items k of
                          Some old \<Rightarrow>
                            if has_key item ''evaluation_results''
                            then dset old ''evaluation_results'' (dget item ''evaluation_results'')
                            else old
                        | None \<Rightarrow> item);
                 items' = AList.update k cur items;
                 eval_results = dget cur ''evaluation_results''
             in if is_valid_eval eval_results then (items', insert k evaluated_ids)
                else (items', evaluated_ids - {k})))"
| "parse_eval _ st = st"

text \<open>The same loop with \<^verbatim>\<open>_parse_eval\<close>.\<close>

definition replay_eval :: "line list \<Rightarrow> items_map \<times> pykey set \<Rightarrow> items_map \<times> pykey set" where
  "replay_eval ls st = fold (\<lambda>l st. if l = Blank then st else parse_eval l st) ls st"

text \<open>Step 3 of the loader, with the local flag \<^verbatim>\<open>retry_eval_errors\<close> as a parameter.\<close>

definition eval_needs_processing :: "bool \<Rightarrow> pykey set \<Rightarrow> pykey \<times> dict \<Rightarrow> bool" where
  "eval_needs_processing retry_eval_errors evaluated_ids kv =
     (case kv of (item_id, item) \<Rightarrow>
        is_valid_answer (dget item ''answer'') \<and>
        item_id \<notin> evaluated_ids \<and>
        (let err = is_eval_error (dget item ''evaluation_results'') in
         \<not> err \<or> (err \<and> retry_eval_errors)))"

definition eval_tasks :: "bool \<Rightarrow> items_map \<Rightarrow> pykey set \<Rightarrow> dict list" where
  "eval_tasks retry_eval_errors items evaluated_ids =
     map snd (filter (eval_needs_processing retry_eval_errors evaluated_ids) items)"

definition retry_eval_errors :: bool where
  "retry_eval_errors = False"

text \<open>
  \<^verbatim>\<open>_load_for_evaluation\<close> in the same two parts; here the store must exist, and the
  state read is the map and \<^verbatim>\<open>evaluated_ids\<close>.
\<close>

definition load_eval_state :: "env \<Rightarrow> world \<Rightarrow> (items_map \<times> pykey set) option" where
  "load_eval_state e w =
     (case w Store of
        None \<Rightarrow> None
      | Some ls \<Rightarrow>
          if faults e (OpRead Store) then None
          else (let st1 = replay_eval ls ([], {}) in
                case w EvalLog of
                  None \<Rightarrow> Some st1
                | Some ls' \<Rightarrow> if faults e (OpRead EvalLog) then None
                              else Some (replay_eval ls' st1)))"

definition load_for_evaluation :: "env \<Rightarrow> world \<Rightarrow> (items_map \<times> dict list) option" where
  "load_for_evaluation e w =
     (case load_eval_state e w of
        None \<Rightarrow> None
      | Some (items, evaluated_ids) \<Rightarrow>
          Some (items, eval_tasks retry_eval_errors items evaluated_ids))"


section \<open>Storage primitives\<close>

text \<open>
  \<^verbatim>\<open>_append_to_infer_log\<close> and \<^verbatim>\<open>_append_to_eval_log\<close>: nothing is written for an item
  without a truthy \<^verbatim>\<open>sample_id\<close>; a failure of the append is printed and swallowed.
  Opening in mode \<^verbatim>\<open>'a'\<close> creates a missing file.
\<close>

definition append_to_log :: "env \<Rightarrow> path \<Rightarrow> dict \<Rightarrow> world \<Rightarrow> world" where
  "append_to_log e log_file item w =
     (let item_id = dget item ''sample_id'' in
      if \<not> truthy item_id then w
      else if faults e (OpAppend log_file (JObj item)) then w
      else w(log_file \<mapsto> (case w log_file of None \<Rightarrow> [] | Some ls \<Rightarrow> ls) @ [Doc (JObj item)]))"

definition append_to_infer_log :: "env \<Rightarrow> dict \<Rightarrow> world \<Rightarrow> world" where
  "append_to_infer_log e item w = append_to_log e InferLog item w"

definition append_to_eval_log :: "env \<Rightarrow> dict \<Rightarrow> world \<Rightarrow> world" where
  "append_to_eval_log e item w = append_to_log e EvalLog item w"

text \<open>
  The body of the \<^verbatim>\<open>for item in data\<close> loop of \<^verbatim>\<open>_safe_rewrite_file\<close>: items that are
  not objects are skipped with a warning; a failing write leaves the lines written so
  far. The result says whether a write raised.
\<close>

fun write_items :: "env \<Rightarrow> path \<Rightarrow> json list \<Rightarrow> line list \<Rightarrow> bool \<times> line list" where
  "write_items e f [] acc = (False, acc)"
| "write_items e f (item # rest) acc =
     (if is_dict item
      then (if faults e (OpWrite f (length acc)) then (True, acc)
            else write_items e f rest (acc @ [Doc item]))
      else write_items e f rest acc)"

definition io_error :: exn where
  "io_error = Exn ''OSError'' []"

text \<open>
  The \<^verbatim>\<open>try\<close> block of \<^verbatim>\<open>_safe_rewrite_file\<close>: open the temporary file for writing,
  serialise, close, \<^verbatim>\<open>shutil.move\<close> it over the target. The move is taken to be an atomic
  rename: it either replaces the target or changes nothing.
\<close>

definition rewrite_attempt :: "env \<Rightarrow> json \<Rightarrow> path \<Rightarrow> bool \<Rightarrow> world \<Rightarrow> exn option \<times> world" where
  "rewrite_attempt e data target_file is_json_report w =
     (let temp_file = Tmp target_file in
      if faults e (OpOpenWrite temp_file) then (Some io_error, w)
      else
        (let written =
               (if is_json_report
                then (if faults e (OpWrite temp_file 0) then (Some io_error, [])
                      else (None, [Doc data]))
                else (case data of
                        JArr items \<Rightarrow>
                          (case write_items e temp_file items [] of
                             (True, ls) \<Rightarrow> (Some io_error, ls)
                           | (False, ls) \<Rightarrow> (None, ls))
                      | _ \<Rightarrow> (Some (Exn ''TypeError'' ''Data must be a list for JSON Lines output''), [])));
             w1 = w(temp_file \<mapsto> snd written)
         in case fst written of
              Some ex \<Rightarrow> (Some ex, w1)
            | None \<Rightarrow>
                if faults e (OpMove temp_file target_file) then (Some io_error, w1)
                else (None, w1(target_file \<mapsto> snd written, temp_file := None))))"

text \<open>
  \<^verbatim>\<open>_safe_rewrite_file\<close>: on an exception the temporary file is removed when it exists
  (a failing removal is passed over) and the exception is raised again. The first
  component of the result is the exception that reaches the caller.
\<close>

definition safe_rewrite_file :: "env \<Rightarrow> json \<Rightarrow> path \<Rightarrow> bool \<Rightarrow> world \<Rightarrow> exn option \<times> world" where
  "safe_rewrite_file e data target_file is_json_report w =
     (let temp_file = Tmp target_file in
      case rewrite_attempt e data target_file is_json_report w of
        (None, w') \<Rightarrow> (None, w')
      | (Some ex, w') \<Rightarrow>
          (Some ex,
           if exists_file w' temp_file
           then (if faults e (OpRemove temp_file) then w' else w'(temp_file := None))
           else w'))"

section \<open>Merge Engine\<close>

text \<open>\<^verbatim>\<open>list(final_items_map.values())\<close>.\<close>

definition map_values :: "items_map \<Rightarrow> json" where
  "map_values items = JArr (map (\<lambda>kv. JObj (snd kv)) items)"

text \<open>
  \<^verbatim>\<open>_merge_infer_log_to_main\<close> and \<^verbatim>\<open>_merge_eval_log_to_main\<close> differ only in the log
  they remove. An empty map returns at once. A failing rewrite is printed, the log stays;
  a failing removal of the log after a successful rewrite is printed as a warning.
\<close>

definition merge_log_to_main :: "env \<Rightarrow> path \<Rightarrow> items_map \<Rightarrow> world \<Rightarrow> world" where
  "merge_log_to_main e log_file final_items_map w =
     (if final_items_map = [] then w
      else case safe_rewrite_file e (map_values final_items_map) Store False w of
             (Some ex, w') \<Rightarrow> w'
           | (None, w') \<Rightarrow>
               if exists_file w' log_file
               then (if faults e (OpRemove log_file) then w' else w'(log_file := None))
               else w')"

definition merge_infer_log_to_main :: "env \<Rightarrow> items_map \<Rightarrow> world \<Rightarrow> world" where
  "merge_infer_log_to_main e final_items_map w = merge_log_to_main e InferLog final_items_map w"

definition merge_eval_log_to_main :: "env \<Rightarrow> items_map \<Rightarrow> world \<Rightarrow> world" where
  "merge_eval_log_to_main e final_items_map w = merge_log_to_main e EvalLog final_items_map w"


section \<open>Stage Executor\<close>

text \<open>
  \<^verbatim>\<open>str(x)\<close> inside the f-strings: a string is itself, the rendering of any other value
  is left to the environment.
\<close>

definition py_str :: "env \<Rightarrow> json \<Rightarrow> string" where
  "py_str e j = (case j of JStr s \<Rightarrow> s | _ \<Rightarrow> str_of e j)"

fun py_type_name :: "json \<Rightarrow> string" where
  "py_type_name JNull = ''NoneType''"
| "py_type_name (JBool b) = ''bool''"
| "py_type_name (JInt i) = ''int''"
| "py_type_name (JFloat r) = ''float''"
| "py_type_name (JStr s) = ''str''"
| "py_type_name (JArr xs) = ''list''"
| "py_type_name (JObj d) = ''dict''"

text \<open>\<^verbatim>\<open>x.get(k)\<close> on a value that need not be a dictionary.\<close>

definition py_get :: "json \<Rightarrow> string \<Rightarrow> exn + json" where
  "py_get x k =
     (case x of
        JObj d \<Rightarrow> Inr (dget d k)
      | _ \<Rightarrow> Inl (Exn ''AttributeError''
                 ([CHR 0x27] @ py_type_name x @ [CHR 0x27] @ '' object has no attribute '' @
                  [CHR 0x27] @ ''get'' @ [CHR 0x27])))"

text \<open>
  \<^verbatim>\<open>self.task_runners.get(task_path)\<close>: the runners are keyed by the task paths (strings)
  whose \<^verbatim>\<open>TaskRunner\<close> could be built; the result is the path of the runner found.
\<close>

definition find_runner :: "env \<Rightarrow> json \<Rightarrow> exn + string option" where
  "find_runner e task_path =
     (case task_path of
        JStr s \<Rightarrow> Inr (if s \<in> set (runners e) then Some s else None)
      | JArr xs \<Rightarrow> Inl (Exn ''TypeError'' (''unhashable type: '' @ [CHR 0x27] @ ''list'' @ [CHR 0x27]))
      | JObj d \<Rightarrow> Inl (Exn ''TypeError'' (''unhashable type: '' @ [CHR 0x27] @ ''dict'' @ [CHR 0x27]))
      | _ \<Rightarrow> Inr None)"

text \<open>The lines shared by the \<^verbatim>\<open>try\<close> blocks of both workers: find the item's runner.\<close>

definition runner_of_item :: "env \<Rightarrow> dict \<Rightarrow> exn + string" where
  "runner_of_item e item_copy =
     (case py_get (dget_default item_copy ''task_config'' (JObj [])) ''task_path'' of
        Inl ex \<Rightarrow> Inl ex
      | Inr task_path \<Rightarrow>
          if \<not> truthy task_path
          then Inl (Exn ''ValueError'' (''Missing '' @ [CHR 0x27] @ ''task_config.task_path'' @ [CHR 0x27]))
          else (case find_runner e task_path of
                  Inl ex \<Rightarrow> Inl ex
                | Inr None \<Rightarrow>
                    Inl (Exn ''ValueError''
                          (''TaskRunner not found for path '' @ [CHR 0x27] @ py_str e task_path @ [CHR 0x27]))
                | Inr (Some r) \<Rightarrow> Inr r))"

text \<open>
  The \<^verbatim>\<open>try\<close> block of \<^verbatim>\<open>_infer_worker\<close>: \<open>Inl\<close> is an exception raised inside it,
  \<open>Inr\<close> the item when the block ends or returns.
\<close>

definition infer_try :: "env \<Rightarrow> dict \<Rightarrow> exn + dict" where
  "infer_try e item_copy =
     (case runner_of_item e item_copy of
        Inl ex \<Rightarrow> Inl ex
      | Inr r \<Rightarrow>
          (let prompt = dget item_copy ''prompt'' in
           if prompt = JNull
           then Inl (Exn ''ValueError'' (''Missing '' @ [CHR 0x27] @ ''prompt'' @ [CHR 0x27]))
           else if prompt = prompt_failed
           then Inr (dset item_copy ''answer'' (JStr ''ERROR: Skipped due to prompt generation failure''))
           else (case call_api e prompt (dget_default item_copy ''eval_args'' (JObj [])) of
                   Inl ex \<Rightarrow> Inl ex
                 | Inr response \<Rightarrow> Inr (dset item_copy ''answer'' response))))"

definition infer_error_msg :: "env \<Rightarrow> dict \<Rightarrow> exn \<Rightarrow> string" where
  "infer_error_msg e item_copy ex =
     (case ex of Exn ty msg \<Rightarrow>
        ''ERROR: API call failed for item '' @
        py_str e (dget_default item_copy ''sample_id'' (JStr ''UNKNOWN_ID'')) @
        '' - '' @ ty @ '': '' @ msg)"

text \<open>
  \<^verbatim>\<open>_infer_worker\<close>: \<^verbatim>\<open>except Exception\<close> turns an exception into an error answer,
  \<^verbatim>\<open>finally\<close> records the elapsed time on every path.
\<close>

definition infer_worker :: "env \<Rightarrow> dict \<Rightarrow> dict" where
  "infer_worker e item_data =
     (let after_try = (case infer_try e item_data of
                         Inr item_copy \<Rightarrow> item_copy
                       | Inl ex \<Rightarrow> dset item_data ''answer'' (JStr (infer_error_msg e item_data ex)))
      in dset after_try ''inference_duration_sec'' (JFloat (infer_elapsed e item_data)))"

definition eval_try :: "env \<Rightarrow> dict \<Rightarrow> exn + dict" where
  "eval_try e item_copy =
     (case runner_of_item e item_copy of
        Inl ex \<Rightarrow> Inl ex
      | Inr r \<Rightarrow>
          (case evaluate_response e r (dget item_copy ''answer'') item_copy of
             Inl ex \<Rightarrow> Inl ex
           | Inr eval_result \<Rightarrow> Inr (dset item_copy ''evaluation_results'' eval_result)))"

definition eval_error_msg :: "env \<Rightarrow> dict \<Rightarrow> exn \<Rightarrow> string" where
  "eval_error_msg e item_copy ex =
     (case ex of Exn ty msg \<Rightarrow>
        ''ERROR: Evaluation failed for item '' @
        py_str e (dget_default item_copy ''sample_id'' (JStr ''UNKNOWN_ID'')) @
        '' - '' @ ty @ '': '' @ msg)"

definition eval_worker :: "env \<Rightarrow> dict \<Rightarrow> dict" where
  "eval_worker e item_data =
     (let after_try = (case eval_try e item_data of
                         Inr item_copy \<Rightarrow> item_copy
                       | Inl ex \<Rightarrow>
                           dset item_data ''evaluation_results''
                             (JObj [(''error'', JStr (eval_error_msg e item_data ex))]))
      in dset after_try ''evaluation_duration_sec'' (JFloat (eval_elapsed e item_data)))"

text \<open>
  The loop over the completed futures, with the pool replaced by sequential execution in
  the order of the task list. The state is the world, the items map, the number of
  completed items and \<^verbatim>\<open>run_successful\<close>. Each result is appended to the Stage Log at
  once and then stored in the map. An unhashable \<^verbatim>\<open>sample_id\<close> raises in the map update
  and again in the handler, which ends the loop with \<^verbatim>\<open>run_successful = False\<close>. A
  \<^verbatim>\<open>KeyboardInterrupt\<close> is not part of the model.
\<close>

type_synonym run_state = "world \<times> items_map \<times> nat \<times> bool"

fun drain :: "(dict \<Rightarrow> dict) \<Rightarrow> (dict \<Rightarrow> world \<Rightarrow> world) \<Rightarrow> dict list \<Rightarrow> run_state \<Rightarrow> run_state" where
  "drain worker append_log [] st = st"
| "drain worker append_log (task # rest) (w, items, completed_count, run_successful) =
     (let item_id = dget task ''sample_id'';
          processed_item = worker task;
          w' = append_log processed_item w
      in if \<not> truthy item_id
         then drain worker append_log rest (w', items, Suc completed_count, run_successful)
         else (case hash_key item_id of
                 Some k \<Rightarrow> drain worker append_log rest
                             (w', AList.update k processed_item items, Suc completed_count, run_successful)
               | None \<Rightarrow> (w', items, completed_count, False)))"


text \<open>
  The pre-check at the head of \<^verbatim>\<open>evaluate_and_save\<close>: the flag says whether the stage
  goes on.
\<close>

definition pre_evaluation_merge :: "env \<Rightarrow> world \<Rightarrow> bool \<times> world" where
  "pre_evaluation_merge e w =
     (if exists_file w InferLog
      then (case load_and_prepare_inference_tasks e w of
              None \<Rightarrow> (False, w)
            | Some (infer_map, ts) \<Rightarrow>
                (let w' = merge_infer_log_to_main e infer_map w in
                 if exists_file w' InferLog then (False, w') else (True, w')))
      else (True, w))"

text \<open>The part of \<^verbatim>\<open>evaluate_and_save\<close> after the pre-check.\<close>

definition evaluation_stage :: "env \<Rightarrow> world \<Rightarrow> world" where
  "evaluation_stage e w =
     (case load_for_evaluation e w of
        None \<Rightarrow> w
      | Some (items, tasks_to_evaluate) \<Rightarrow>
          if tasks_to_evaluate = []
          then (if exists_file w EvalLog then merge_eval_log_to_main e items w else w)
          else (case drain (eval_worker e) (append_to_eval_log e) tasks_to_evaluate (w, items, 0, True) of
                  (w', items', completed_count, run_successful) \<Rightarrow>
                    if run_successful then merge_eval_log_to_main e items' w' else w'))"

definition evaluate_and_save :: "env \<Rightarrow> world \<Rightarrow> world" where
  "evaluate_and_save e w =
     (case pre_evaluation_merge e w of
        (False, w') \<Rightarrow> w'
      | (True, w') \<Rightarrow> evaluation_stage e w')"


section \<open>Hierarchical Metrics Aggregator\<close>

text \<open>\<^verbatim>\<open>s.split('/')\<close> and \<^verbatim>\<open>'/'.join(parts)\<close>.\<close>

fun split_slash :: "string \<Rightarrow> string list" where
  "split_slash [] = [[]]"
| "split_slash (c # cs) =
     (if c = CHR ''/'' then [] # split_slash cs
      else (case split_slash cs of
              [] \<Rightarrow> [[c]]
            | p # ps \<Rightarrow> (c # p) # ps))"

fun join_slash :: "string list \<Rightarrow> string" where
  "join_slash [] = []"
| "join_slash [p] = p"
| "join_slash (p # q # ps) = p @ ''/'' @ join_slash (q # ps)"

text \<open>
  \<^verbatim>\<open>isinstance(value, (int, float))\<close>, with the value as a number: \<^verbatim>\<open>bool\<close> is a subclass
  of \<^verbatim>\<open>int\<close>.
\<close>

fun num_value :: "json \<Rightarrow> rat option" where
  "num_value (JBool b) = Some (if b then 1 else 0)"
| "num_value (JInt i) = Some (of_int i)"
| "num_value (JFloat r) = Some r"
| "num_value _ = None"

text \<open>
  \<^verbatim>\<open>stats\<close>: hierarchy, then metric, then the pair \<^verbatim>\<open>[sum, count]\<close>; an entry comes into
  being (as \<^verbatim>\<open>[0.0, 0]\<close>) when it is first added to.
\<close>

type_synonym stats = "(string \<times> (string \<times> rat \<times> nat) list) list"

definition stat :: "stats \<Rightarrow> string \<Rightarrow> string \<Rightarrow> (rat \<times> nat) option" where
  "stat st h m = (case map_of st h of None \<Rightarrow> None | Some md \<Rightarrow> map_of md m)"

definition bump :: "string \<Rightarrow> string \<Rightarrow> json \<Rightarrow> stats \<Rightarrow> stats" where
  "bump h m value st =
     (case num_value value of
        None \<Rightarrow> st
      | Some v \<Rightarrow>
          (let md = (case map_of st h of None \<Rightarrow> [] | Some md \<Rightarrow> md);
               sc = (case map_of md m of None \<Rightarrow> (0, 0) | Some sc \<Rightarrow> sc)
           in AList.update h (AList.update m (fst sc + v, Suc (snd sc)) md) st))"

text \<open>The body of \<^verbatim>\<open>for depth in range(1, len(task_path_parts) + 1)\<close>.\<close>

definition collect_at :: "string list \<Rightarrow> dict \<Rightarrow> json \<Rightarrow> json \<Rightarrow> string \<Rightarrow> stats \<Rightarrow> stats" where
  "collect_at metrics_to_collect eval_results inference_duration evaluation_duration hierarchy st =
     bump hierarchy ''evaluation_duration_sec'' evaluation_duration
       (bump hierarchy ''inference_duration_sec'' inference_duration
          (fold (\<lambda>metric. bump hierarchy metric (dget eval_results metric)) metrics_to_collect st))"

definition hierarchies :: "string list \<Rightarrow> string list" where
  "hierarchies task_path_parts =
     map (\<lambda>depth. join_slash (take depth task_path_parts)) [1 ..< Suc (length task_path_parts)]"

text \<open>
  One non-blank line of the store in \<^verbatim>\<open>analyze_hierarchical_metrics\<close>; the state is
  \<^verbatim>\<open>stats\<close> and \<^verbatim>\<open>items_analyzed\<close>. Every \<^verbatim>\<open>continue\<close> and every caught exception leaves
  the state as it was.
\<close>

fun analyze_line :: "env \<Rightarrow> line \<Rightarrow> stats \<times> nat \<Rightarrow> stats \<times> nat" where
  "analyze_line e (Doc (JObj item)) (st, items_analyzed) =
     (let inference_duration = dget item ''inference_duration_sec'';
          evaluation_duration = dget item ''evaluation_duration_sec''
      in case dget item ''evaluation_results'' of
           JObj eval_results \<Rightarrow>
             if truthy (dget eval_results ''error'') then (st, items_analyzed)
             else (case dget_default item ''task'' (JStr []) of
                     JStr task_full_path \<Rightarrow>
                       if take 9 task_full_path \<noteq> ''longeval/'' then (st, items_analyzed)
                       else (let task_path_parts = tl (split_slash task_full_path) in
                             if task_path_parts = [] then (st, items_analyzed)
                             else (case registry e (hd task_path_parts) of
                                     None \<Rightarrow> (st, items_analyzed)
                                   | Some metrics_to_collect \<Rightarrow>
                                       if metrics_to_collect = [] then (st, items_analyzed)
                                       else (fold (collect_at metrics_to_collect eval_results
                                                     inference_duration evaluation_duration)
                                               (hierarchies task_path_parts) st,
                                             Suc items_analyzed)))
                   | _ \<Rightarrow> (st, items_analyzed))
         | _ \<Rightarrow> (st, items_analyzed))"
| "analyze_line e _ st = st"

definition collect_stats :: "env \<Rightarrow> line list \<Rightarrow> stats \<times> nat" where
  "collect_stats e ls = fold (analyze_line e) (filter (\<lambda>l. l \<noteq> Blank) ls) ([], 0)"

text \<open>\<^verbatim>\<open>round(x, 4)\<close>, ties to the even neighbour.\<close>

definition round_half_even :: "rat \<Rightarrow> int" where
  "round_half_even x =
     (let f = \<lfloor>x\<rfloor>; r = x - of_int f in
      if r < 1 / 2 then f else if 1 / 2 < r then f + 1 else if even f then f else f + 1)"

definition round4 :: "rat \<Rightarrow> rat" where
  "round4 x = of_int (round_half_even (x * 10000)) / 10000"

definition report_entry :: "string \<times> rat \<times> nat \<Rightarrow> string \<times> json" where
  "report_entry kv =
     (case kv of (metric, sum_total, n) \<Rightarrow>
        (metric, JObj [(''average'', JFloat (round4 (sum_total / of_nat n))),
                       (''samples'', JInt (int n))]))"

text \<open>The report: hierarchies and metrics in sorted order, entries with a positive count.\<close>

definition build_report :: "stats \<Rightarrow> json" where
  "build_report st =
     JObj (map (\<lambda>(hierarchy, metric_data).
                  (hierarchy,
                   JObj (map report_entry
                          (filter (\<lambda>(metric, sum_total, n). 0 < n) (sort_key fst metric_data)))))
             (sort_key fst st))"

definition analyze_hierarchical_metrics :: "env \<Rightarrow> world \<Rightarrow> world" where
  "analyze_hierarchical_metrics e w =
     (if exists_file w InferLog \<or> exists_file w EvalLog then w
      else case w Store of
             None \<Rightarrow> w
           | Some ls \<Rightarrow>
               if faults e (OpRead Store) then w
               else (case collect_stats e ls of
                       (st, items_analyzed) \<Rightarrow>
                         if length (filter (\<lambda>l. l \<noteq> Blank) ls) = 0 then w
                         else if items_analyzed = 0 then w
                         else snd (safe_rewrite_file e (build_report st) Report True w)))"


section \<open>Generate stage and the whole run\<close>










section \<open>Notions used to state the properties\<close>

text \<open>The lines of a file, none when the file does not exist.\<close>

definition file_lines :: "world \<Rightarrow> path \<Rightarrow> line list" where
  "file_lines w f = (case w f of None \<Rightarrow> [] | Some ls \<Rightarrow> ls)"

text \<open>
  The record a line holds and the key it is filed under: the line is a JSON object with
  a truthy, hashable \<^verbatim>\<open>sample_id\<close>.
\<close>

fun line_record :: "line \<Rightarrow> (pykey \<times> dict) option" where
  "line_record (Doc (JObj item)) =
     (if truthy (dget item ''sample_id'') then
        (case hash_key (dget item ''sample_id'') of None \<Rightarrow> None | Some k \<Rightarrow> Some (k, item))
      else None)"
| "line_record _ = None"

definition record_for :: "pykey \<Rightarrow> line \<Rightarrow> dict option" where
  "record_for k l =
     (case line_record l of None \<Rightarrow> None | Some (k', d) \<Rightarrow> if k' = k then Some d else None)"

text \<open>The records of the lines with a given \<^verbatim>\<open>sample_id\<close>, in file order.\<close>

definition records_for :: "pykey \<Rightarrow> line list \<Rightarrow> dict list" where
  "records_for k ls = List.map_filter (record_for k) ls"

definition last_record :: "pykey \<Rightarrow> line list \<Rightarrow> dict option" where
  "last_record k ls = (case records_for k ls of [] \<Rightarrow> None | d # ds \<Rightarrow> Some (last (d # ds)))"

text \<open>
  Last writer wins: the record of the last log line with the id, or of the last store
  line with it when no log line has it.
\<close>

definition last_writer_wins :: "pykey \<Rightarrow> line list \<Rightarrow> line list \<Rightarrow> dict option" where
  "last_writer_wins k store_lines log_lines =
     (case last_record k log_lines of Some d \<Rightarrow> Some d | None \<Rightarrow> last_record k store_lines)"

text \<open>
  What a later line with the same id does to the record the evaluation loader holds:
  only its \<^verbatim>\<open>evaluation_results\<close> are taken over, when it has that key.
\<close>

definition overlay_eval :: "dict \<Rightarrow> dict \<Rightarrow> dict" where
  "overlay_eval later old =
     (if has_key later ''evaluation_results''
      then dset old ''evaluation_results'' (dget later ''evaluation_results'')
      else old)"

definition first_record_overlaid :: "pykey \<Rightarrow> line list \<Rightarrow> dict option" where
  "first_record_overlaid k ls =
     (case records_for k ls of [] \<Rightarrow> None | d # ds \<Rightarrow> Some (fold overlay_eval ds d))"

text \<open>Every record of the map carries the truthy \<^verbatim>\<open>sample_id\<close> it is filed under.\<close>

definition wf_items :: "items_map \<Rightarrow> bool" where
  "wf_items items =
     (\<forall>kv \<in> set items. truthy (dget (snd kv) ''sample_id'') \<and>
                        hash_key (dget (snd kv) ''sample_id'') = Some (fst kv))"

text \<open>
  Validity as the code reads it, on a whole record: validly answered is an answer that is
  not \<^verbatim>\<open>None\<close>, not empty and not error-prefixed; validly evaluated is an
  \<^verbatim>\<open>evaluation_results\<close> object whose \<^verbatim>\<open>"error"\<close> entry is absent or falsy.
\<close>

definition validly_answered :: "dict \<Rightarrow> bool" where
  "validly_answered d = is_valid_answer (dget d ''answer'')"

definition validly_evaluated :: "dict \<Rightarrow> bool" where
  "validly_evaluated d = is_valid_eval (dget d ''evaluation_results'')"

text \<open>The ids a map holds with a valid answer, with a valid evaluation.\<close>

definition answered_ids :: "items_map \<Rightarrow> pykey set" where
  "answered_ids items = {k. \<exists>d. map_of items k = Some d \<and> validly_answered d}"

definition evaluated_keys :: "items_map \<Rightarrow> pykey set" where
  "evaluated_keys items = {k. \<exists>d. map_of items k = Some d \<and> validly_evaluated d}"

text \<open>
  The classification rule in the words of the specification: not validly done for the
  stage; for infer the prompt did not fail; for evaluate the answer is valid; an
  error-marked record only when errors are retried.
\<close>

definition infer_pending :: "bool \<Rightarrow> dict \<Rightarrow> bool" where
  "infer_pending retry d =
     (\<not> validly_answered d \<and> dget d ''prompt'' \<noteq> prompt_failed \<and>
      (is_error_answer (dget d ''answer'') \<longrightarrow> retry))"

definition eval_pending :: "bool \<Rightarrow> dict \<Rightarrow> bool" where
  "eval_pending retry d =
     (\<not> validly_evaluated d \<and> validly_answered d \<and>
      (is_eval_error (dget d ''evaluation_results'') \<longrightarrow> retry))"

text \<open>
  What a rewrite writes: the report as one JSON text, or one line for every item of the
  list that is an object.
\<close>

definition dict_lines :: "json list \<Rightarrow> line list" where
  "dict_lines items = map Doc (filter is_dict items)"

definition serialized :: "json \<Rightarrow> bool \<Rightarrow> line list" where
  "serialized data is_json_report =
     (if is_json_report then [Doc data]
      else case data of JArr items \<Rightarrow> dict_lines items | _ \<Rightarrow> [])"

text \<open>
  The steps of a rewrite that can fail: opening the temporary file, writing one of the
  \<open>n\<close> lines from position \<open>lo\<close> on (data that is not a list fails as well), and the
  move over the target.
\<close>

definition write_fault :: "env \<Rightarrow> path \<Rightarrow> nat \<Rightarrow> nat \<Rightarrow> bool" where
  "write_fault e f lo n = (\<exists>i. lo \<le> i \<and> i < lo + n \<and> faults e (OpWrite f i))"

definition serialize_fails :: "env \<Rightarrow> json \<Rightarrow> path \<Rightarrow> bool \<Rightarrow> bool" where
  "serialize_fails e data target is_json_report =
     (faults e (OpOpenWrite (Tmp target)) \<or>
      (if is_json_report then faults e (OpWrite (Tmp target) 0)
       else case data of
              JArr items \<Rightarrow> write_fault e (Tmp target) 0 (length (dict_lines items))
            | _ \<Rightarrow> True))"

definition rewrite_fails :: "env \<Rightarrow> json \<Rightarrow> path \<Rightarrow> bool \<Rightarrow> bool" where
  "rewrite_fails e data target is_json_report =
     (serialize_fails e data target is_json_report \<or> faults e (OpMove (Tmp target) target))"

text \<open>
  The lines a run adds to a Stage Log for the results of its workers: one line per
  result, in order, except the results whose append fails.
\<close>

definition appended_lines :: "env \<Rightarrow> path \<Rightarrow> dict list \<Rightarrow> line list" where
  "appended_lines e log_file results =
     map (\<lambda>d. Doc (JObj d)) (filter (\<lambda>d. \<not> faults e (OpAppend log_file (JObj d))) results)"

text \<open>A record with a truthy, hashable \<^verbatim>\<open>sample_id\<close>.\<close>

definition keyed :: "dict \<Rightarrow> bool" where
  "keyed d = (truthy (dget d ''sample_id'') \<and> hash_key (dget d ''sample_id'') \<noteq> None)"















section \<open>Example inputs\<close>

text \<open>An environment without faults whose collaborators always succeed.\<close>

definition quiet_env :: env where
  "quiet_env =
     \<lparr> faults = (\<lambda>op. False),
       runners = [''a/b'', ''a/c''],
       str_of = (\<lambda>j. ''?''),
       generate_prompt = (\<lambda>task_path item. Inr (JStr ''p'', JNull)),
       call_api = (\<lambda>prompt eval_args. Inr (JStr ''ans'')),
       evaluate_response = (\<lambda>task_path answer item. Inr (JObj [(''score'', JFloat (4 / 5))])),
       infer_elapsed = (\<lambda>item. 2),
       eval_elapsed = (\<lambda>item. 3),
       registry = (\<lambda>name. if name = ''a'' then Some [''score''] else None),
       task_configs = [[(''task_path'', JStr ''a/b'')]],
       model_params = JObj [] \<rparr>"

definition no_files :: world where
  "no_files = (\<lambda>f. None)"

text \<open>
  A store with one answered record and an evaluation log holding the line the worker
  appended for it before the run was cut off.
\<close>

definition answered_item :: dict where
  "answered_item = [(''sample_id'', JStr ''s1''), (''prompt'', JStr ''p''), (''answer'', JStr ''a'')]"

definition evaluated_item :: dict where
  "evaluated_item =
     [(''sample_id'', JStr ''s1''), (''prompt'', JStr ''p''), (''answer'', JStr ''a''),
      (''evaluation_results'', JObj [(''score'', JInt 1)]),
      (''evaluation_duration_sec'', JFloat 3)]"

definition world_eval_pending :: world where
  "world_eval_pending =
     no_files(Store \<mapsto> [Doc (JObj answered_item)], EvalLog \<mapsto> [Doc (JObj evaluated_item)])"

text \<open>The same for the infer stage: a store line without answer, a log line with one.\<close>

definition prompted_item :: dict where
  "prompted_item = [(''sample_id'', JStr ''s1''), (''prompt'', JStr ''p''), (''answer'', JNull)]"

definition world_infer_pending :: world where
  "world_infer_pending =
     no_files(Store \<mapsto> [Doc (JObj prompted_item)], InferLog \<mapsto> [Doc (JObj answered_item)])"

text \<open>A store with one record waiting for inference, and one waiting for evaluation.\<close>

definition world_prompted :: world where
  "world_prompted = no_files(Store \<mapsto> [Doc (JObj prompted_item)])"

definition world_answered :: world where
  "world_answered = no_files(Store \<mapsto> [Doc (JObj answered_item)])"

text \<open>
  A record answered in the store whose retry failed in the log, and a record evaluated in
  the store whose later log line carries an error.
\<close>

definition errored_item :: dict where
  "errored_item =
     [(''sample_id'', JStr ''s1''), (''prompt'', JStr ''p''), (''answer'', JStr ''ERROR: timeout'')]"

definition world_answer_retracted :: world where
  "world_answer_retracted =
     no_files(Store \<mapsto> [Doc (JObj answered_item)], InferLog \<mapsto> [Doc (JObj errored_item)])"

definition eval_error_line :: dict where
  "eval_error_line =
     [(''sample_id'', JStr ''s1''), (''evaluation_results'', JObj [(''error'', JStr ''boom'')])]"

definition eval_errored_item :: dict where
  "eval_errored_item =
     [(''sample_id'', JStr ''s1''), (''prompt'', JStr ''p''), (''answer'', JStr ''a''),
      (''evaluation_results'', JObj [(''error'', JStr ''boom'')]),
      (''evaluation_duration_sec'', JFloat 3)]"

definition world_eval_retracted :: world where
  "world_eval_retracted =
     no_files(Store \<mapsto> [Doc (JObj evaluated_item)], EvalLog \<mapsto> [Doc (JObj eval_error_line)])"

text \<open>
  Environments with faults: the move of the temporary store fails; the move and the
  removal of the temporary store fail; the removal of the inference log fails; the
  removal of the evaluation log fails.
\<close>

definition move_fails_env :: env where
  "move_fails_env = quiet_env\<lparr>faults := (\<lambda>op. op = OpMove (Tmp Store) Store)\<rparr>"


definition sticky_log_env :: env where
  "sticky_log_env = quiet_env\<lparr>faults := (\<lambda>op. op = OpRemove InferLog)\<rparr>"

definition sticky_eval_log_env :: env where
  "sticky_eval_log_env = quiet_env\<lparr>faults := (\<lambda>op. op = OpRemove EvalLog)\<rparr>"

text \<open>
  A processor that raises on the prompt \<^verbatim>\<open>bad\<close> and an evaluator that raises on the
  answer \<^verbatim>\<open>bad\<close>; three records waiting for inference, the second with that prompt; two
  records waiting for evaluation, the second with that answer.
\<close>

definition api_exn :: exn where
  "api_exn = Exn ''Exception'' ''Max retries exceeded''"

definition eval_exn :: exn where
  "eval_exn = Exn ''ValueError'' ''unparseable''"

definition flaky_env :: env where
  "flaky_env =
     quiet_env\<lparr>
       call_api := (\<lambda>prompt eval_args. if prompt = JStr ''bad'' then Inl api_exn
                                        else Inr (JStr ''ans'')),
       evaluate_response := (\<lambda>task_path answer item.
                               if answer = JStr ''bad'' then Inl eval_exn
                               else Inr (JObj [(''score'', JFloat (4 / 5))]))\<rparr>"

definition pending_item :: "string \<Rightarrow> string \<Rightarrow> dict" where
  "pending_item sid prompt =
     [(''sample_id'', JStr sid), (''prompt'', JStr prompt), (''answer'', JNull),
      (''task_config'', JObj [(''task_path'', JStr ''a/b'')])]"

definition given_answer :: "string \<Rightarrow> string \<Rightarrow> dict" where
  "given_answer sid answer =
     [(''sample_id'', JStr sid), (''prompt'', JStr ''p''), (''answer'', JStr answer),
      (''task_config'', JObj [(''task_path'', JStr ''a/b'')])]"

definition world_three_prompted :: world where
  "world_three_prompted =
     no_files(Store \<mapsto> [Doc (JObj (pending_item ''s0'' ''p'')),
                        Doc (JObj (pending_item ''s1'' ''bad'')),
                        Doc (JObj (pending_item ''s2'' ''p''))])"

definition world_two_answered :: world where
  "world_two_answered =
     no_files(Store \<mapsto> [Doc (JObj (given_answer ''s0'' ''ans'')),
                        Doc (JObj (given_answer ''s1'' ''bad''))])"





text \<open>
  Two records with timing fields under the same task: the first validly evaluated, the
  second with an evaluation error.
\<close>

definition timed_item :: "string \<Rightarrow> json \<Rightarrow> rat \<Rightarrow> rat \<Rightarrow> dict" where
  "timed_item sid eval_results idur edur =
     [(''sample_id'', JStr sid), (''task'', JStr ''longeval/a/b''),
      (''evaluation_results'', eval_results),
      (''inference_duration_sec'', JFloat idur),
      (''evaluation_duration_sec'', JFloat edur)]"

definition timed_lines :: "line list" where
  "timed_lines =
     [Doc (JObj (timed_item ''r1'' (JObj [(''score'', JFloat (4 / 5))]) 2 3)),
      Doc (JObj (timed_item ''r2'' (JObj [(''error'', JStr ''boom'')]) 4 5))]"

definition world_timed :: world where
  "world_timed = no_files(Store \<mapsto> timed_lines)"




section \<open>Properties\<close>

subsection \<open>Dictionaries and replay\<close>

lemma dget_dset: "dget (dset d k v) k' = (if k' = k then v else dget d k')"
  by (simp add: dget_def dset_def update_conv')

lemma has_key_dset: "has_key (dset d k v) k' = (k' = k \<or> has_key d k')"
  by (simp add: has_key_def dset_def update_conv')

lemma set_update_subset: "set (AList.update k v al) \<subseteq> insert (k, v) (set al)"
  by (induction al) auto

lemma replay_infer_fold: "replay_infer ls st = fold parse_infer ls st"
proof -
  have "(\<lambda>l st. if l = Blank then st else parse_infer l st) = parse_infer"
    by (auto simp: fun_eq_iff)
  then show ?thesis by (simp add: replay_infer_def)
qed

lemma replay_eval_fold: "replay_eval ls st = fold parse_eval ls st"
proof -
  have "(\<lambda>l st. if l = Blank then st else parse_eval l st) = parse_eval"
    by (auto simp: fun_eq_iff)
  then show ?thesis by (simp add: replay_eval_def)
qed

lemma wf_items_Nil: "wf_items []"
  by (simp add: wf_items_def)

lemma wf_items_update:
  "wf_items items \<Longrightarrow> truthy (dget d ''sample_id'') \<Longrightarrow>
   hash_key (dget d ''sample_id'') = Some k \<Longrightarrow> wf_items (AList.update k d items)"
  unfolding wf_items_def using set_update_subset[of k d items] by auto

lemma wf_items_map_of:
  "wf_items items \<Longrightarrow> map_of items k = Some d \<Longrightarrow>
   truthy (dget d ''sample_id'') \<and> hash_key (dget d ''sample_id'') = Some k"
  unfolding wf_items_def by (force dest: map_of_SomeD)

lemma parse_infer_wf: "wf_items (fst st) \<Longrightarrow> wf_items (fst (parse_infer l st))"
  by (induction l st rule: parse_infer.induct)
     (auto simp: Let_def wf_items_update split: option.splits)

lemma parse_eval_wf: "wf_items (fst st) \<Longrightarrow> wf_items (fst (parse_eval l st))"
  by (induction l st rule: parse_eval.induct)
     (auto simp: Let_def dget_dset intro!: wf_items_update dest: wf_items_map_of
           split: option.splits)

lemma replay_infer_wf: "wf_items (fst st) \<Longrightarrow> wf_items (fst (replay_infer ls st))"
  unfolding replay_infer_fold by (induction ls arbitrary: st) (auto simp: parse_infer_wf)

lemma replay_eval_wf: "wf_items (fst st) \<Longrightarrow> wf_items (fst (replay_eval ls st))"
  unfolding replay_eval_fold by (induction ls arbitrary: st) (auto simp: parse_eval_wf)

lemma replay_infer_append: "replay_infer (xs @ ys) st = replay_infer ys (replay_infer xs st)"
  by (simp add: replay_infer_fold)

lemma replay_eval_append: "replay_eval (xs @ ys) st = replay_eval ys (replay_eval xs st)"
  by (simp add: replay_eval_fold)

lemma replay_infer_snoc: "replay_infer (xs @ [x]) st = parse_infer x (replay_infer xs st)"
  by (simp add: replay_infer_fold)

lemma replay_eval_snoc: "replay_eval (xs @ [x]) st = parse_eval x (replay_eval xs st)"
  by (simp add: replay_eval_fold)

text \<open>A loader that returns a state has replayed the store and then the log.\<close>

lemma load_infer_state_replay:
  "load_infer_state e w = Some st \<Longrightarrow>
     st = replay_infer (file_lines w Store @ file_lines w InferLog) ([], {})"
  unfolding load_infer_state_def file_lines_def replay_infer_append
  by (simp add: Let_def replay_infer_fold split: option.splits if_splits)

lemma load_eval_state_replay:
  "load_eval_state e w = Some st \<Longrightarrow>
     st = replay_eval (file_lines w Store @ file_lines w EvalLog) ([], {})"
  unfolding load_eval_state_def file_lines_def replay_eval_append
  by (simp add: Let_def replay_eval_fold split: option.splits if_splits)

lemma load_infer_state_wf: "load_infer_state e w = Some st \<Longrightarrow> wf_items (fst st)"
  by (drule load_infer_state_replay) (simp add: replay_infer_wf wf_items_Nil)

lemma load_eval_state_wf: "load_eval_state e w = Some st \<Longrightarrow> wf_items (fst st)"
  by (drule load_eval_state_replay) (simp add: replay_eval_wf wf_items_Nil)

subsection \<open>The map of the loaders, key by key\<close>

lemma last_record_alt:
  "last_record k ls = (if records_for k ls = [] then None else Some (last (records_for k ls)))"
  by (cases "records_for k ls") (simp_all add: last_record_def)

lemma records_for_append: "records_for k (xs @ ys) = records_for k xs @ records_for k ys"
  by (simp add: records_for_def map_filter_def)

lemma records_for_single:
  "records_for k [x] = (case record_for k x of None \<Rightarrow> [] | Some d \<Rightarrow> [d])"
  by (simp add: records_for_def map_filter_def split: option.splits)

lemma last_record_append:
  "last_record k (xs @ ys) =
     (case last_record k ys of Some d \<Rightarrow> Some d | None \<Rightarrow> last_record k xs)"
  by (simp add: last_record_alt records_for_append)

lemma parse_infer_map:
  "fst (parse_infer l st) =
     (case line_record l of None \<Rightarrow> fst st | Some (k, d) \<Rightarrow> AList.update k d (fst st))"
  by (induction l st rule: parse_infer.induct) (auto simp: Let_def split: option.splits)

lemma parse_eval_map:
  "fst (parse_eval l st) =
     (case line_record l of
        None \<Rightarrow> fst st
      | Some (k, d) \<Rightarrow>
          AList.update k
            (case map_of (fst st) k of None \<Rightarrow> d | Some old \<Rightarrow> overlay_eval d old) (fst st))"
  by (induction l st rule: parse_eval.induct)
     (auto simp: Let_def overlay_eval_def split: option.splits)

lemma replay_infer_map_of:
  "map_of (fst (replay_infer ls st)) k =
     (case last_record k ls of Some d \<Rightarrow> Some d | None \<Rightarrow> map_of (fst st) k)"
proof (induction ls rule: rev_induct)
  case Nil
  show ?case by (simp add: replay_infer_fold last_record_def records_for_def map_filter_def)
next
  case (snoc x xs)
  show ?case
  proof (cases "line_record x")
    case None
    then have "records_for k (xs @ [x]) = records_for k xs"
      by (simp add: records_for_append records_for_single record_for_def)
    with None snoc show ?thesis
      by (simp add: replay_infer_snoc parse_infer_map last_record_alt)
  next
    case (Some kd)
    obtain k' d where kd: "kd = (k', d)" by (cases kd)
    show ?thesis
    proof (cases "k' = k")
      case True
      with Some kd have "records_for k (xs @ [x]) = records_for k xs @ [d]"
        by (simp add: records_for_append records_for_single record_for_def)
      then have "last_record k (xs @ [x]) = Some d"
        by (simp add: last_record_alt)
      with Some kd True show ?thesis
        by (simp add: replay_infer_snoc parse_infer_map update_conv')
    next
      case False
      with Some kd have "records_for k (xs @ [x]) = records_for k xs"
        by (simp add: records_for_append records_for_single record_for_def)
      with Some kd False snoc show ?thesis
        by (simp add: replay_infer_snoc parse_infer_map last_record_alt update_conv')
    qed
  qed
qed

lemma replay_eval_map_of:
  "map_of (fst (replay_eval ls ([], {}))) k = first_record_overlaid k ls"
proof (induction ls rule: rev_induct)
  case Nil
  show ?case
    by (simp add: replay_eval_fold first_record_overlaid_def records_for_def map_filter_def)
next
  case (snoc x xs)
  show ?case
  proof (cases "line_record x")
    case None
    then have "records_for k (xs @ [x]) = records_for k xs"
      by (simp add: records_for_append records_for_single record_for_def)
    with None snoc show ?thesis
      by (simp add: replay_eval_snoc parse_eval_map first_record_overlaid_def)
  next
    case (Some kd)
    obtain k' d where kd: "kd = (k', d)" by (cases kd)
    show ?thesis
    proof (cases "k' = k")
      case True
      with Some kd have r: "records_for k (xs @ [x]) = records_for k xs @ [d]"
        by (simp add: records_for_append records_for_single record_for_def)
      from snoc Some kd True r show ?thesis
        by (cases "records_for k xs")
           (auto simp: replay_eval_snoc parse_eval_map update_conv' first_record_overlaid_def)
    next
      case False
      with Some kd have "records_for k (xs @ [x]) = records_for k xs"
        by (simp add: records_for_append records_for_single record_for_def)
      with Some kd False snoc show ?thesis
        by (simp add: replay_eval_snoc parse_eval_map first_record_overlaid_def update_conv')
    qed
  qed
qed

subsection \<open>Merge key and loader map\<close>

text \<open>
  Claim C1, as amended. The inference loader is last-writer-wins: its map gives every
  \<^verbatim>\<open>sample_id\<close> the whole record of the last Stage Log line with that id, or of the last
  Record Store line with it when the log has none. The evaluation loader is not: it
  keeps the record of the first line with the id (store first, then log) and takes from
  every later line with that id only the \<^verbatim>\<open>evaluation_results\<close>, when the line has that
  key; every other field of a later line is dropped.
\<close>

theorem loader_map_contents:
  "(load_and_prepare_inference_tasks e w = Some (items, tasks) \<longrightarrow>
      map_of items k = last_writer_wins k (file_lines w Store) (file_lines w InferLog)) \<and>
   (load_for_evaluation e w' = Some (items', tasks') \<longrightarrow>
      map_of items' k = first_record_overlaid k (file_lines w' Store @ file_lines w' EvalLog))"
proof (intro conjI impI)
  assume "load_and_prepare_inference_tasks e w = Some (items, tasks)"
  then obtain pids where "load_infer_state e w = Some (items, pids)"
    by (auto simp: load_and_prepare_inference_tasks_def split: option.splits)
  then have "(items, pids) = replay_infer (file_lines w Store @ file_lines w InferLog) ([], {})"
    by (rule load_infer_state_replay)
  then have "items = fst (replay_infer (file_lines w Store @ file_lines w InferLog) ([], {}))"
    by (metis fst_conv)
  then show "map_of items k = last_writer_wins k (file_lines w Store) (file_lines w InferLog)"
    by (simp add: replay_infer_map_of last_record_append last_writer_wins_def split: option.splits)
next
  assume "load_for_evaluation e w' = Some (items', tasks')"
  then obtain ev where "load_eval_state e w' = Some (items', ev)"
    by (auto simp: load_for_evaluation_def split: option.splits)
  then have "(items', ev) = replay_eval (file_lines w' Store @ file_lines w' EvalLog) ([], {})"
    by (rule load_eval_state_replay)
  then have "items' = fst (replay_eval (file_lines w' Store @ file_lines w' EvalLog) ([], {}))"
    by (metis fst_conv)
  then show "map_of items' k = first_record_overlaid k (file_lines w' Store @ file_lines w' EvalLog)"
    by (simp add: replay_eval_map_of)
qed

text \<open>
  Both loaders on a store line for \<^verbatim>\<open>s1\<close> followed by a log line for \<^verbatim>\<open>s1\<close>.
\<close>

theorem loader_map_contents_witness:
  "load_and_prepare_inference_tasks quiet_env world_infer_pending =
     Some ([(KStr ''s1'', answered_item)], []) \<and>
   map_of [(KStr ''s1'', answered_item)] (KStr ''s1'') =
     last_writer_wins (KStr ''s1'') (file_lines world_infer_pending Store)
       (file_lines world_infer_pending InferLog) \<and>
   load_for_evaluation quiet_env world_eval_pending =
     Some ([(KStr ''s1'', dset answered_item ''evaluation_results'' (JObj [(''score'', JInt 1)]))], []) \<and>
   map_of [(KStr ''s1'', dset answered_item ''evaluation_results'' (JObj [(''score'', JInt 1)]))]
       (KStr ''s1'') =
     first_record_overlaid (KStr ''s1'')
       (file_lines world_eval_pending Store @ file_lines world_eval_pending EvalLog)"
proof -
  have h1: "load_and_prepare_inference_tasks quiet_env world_infer_pending =
              Some ([(KStr ''s1'', answered_item)], [])"
    by code_simp
  have h2: "load_for_evaluation quiet_env world_eval_pending =
              Some ([(KStr ''s1'',
                      dset answered_item ''evaluation_results'' (JObj [(''score'', JInt 1)]))], [])"
    by code_simp
  show ?thesis
    using h1 h2
      loader_map_contents [where e = quiet_env and w = world_infer_pending
         and items = "[(KStr ''s1'', answered_item)]" and tasks = "[]" and k = "KStr ''s1''"
         and w' = world_eval_pending
         and items' = "[(KStr ''s1'',
                         dset answered_item ''evaluation_results'' (JObj [(''score'', JInt 1)]))]"
         and tasks' = "[]"]
    by simp
qed

text \<open>
  Claim C1 as it is written fails for the evaluation loader. The store holds the
  answered record \<^verbatim>\<open>s1\<close>, the evaluation log the line the worker appended for it, with
  \<^verbatim>\<open>evaluation_results\<close> and \<^verbatim>\<open>evaluation_duration_sec\<close>. The loader's record for
  \<^verbatim>\<open>s1\<close> has no \<^verbatim>\<open>evaluation_duration_sec\<close>: it is not the record of the last log line,
  and the store that the resumed evaluation stage merges has lost that field.
\<close>

theorem eval_loader_not_last_writer_counterexample:
  "load_for_evaluation quiet_env world_eval_pending =
     Some ([(KStr ''s1'',
             [(''sample_id'', JStr ''s1''), (''prompt'', JStr ''p''), (''answer'', JStr ''a''),
              (''evaluation_results'', JObj [(''score'', JInt 1)])])], []) \<and>
   last_writer_wins (KStr ''s1'') (file_lines world_eval_pending Store)
       (file_lines world_eval_pending EvalLog) =
     Some [(''sample_id'', JStr ''s1''), (''prompt'', JStr ''p''), (''answer'', JStr ''a''),
           (''evaluation_results'', JObj [(''score'', JInt 1)]),
           (''evaluation_duration_sec'', JFloat 3)] \<and>
   evaluate_and_save quiet_env world_eval_pending Store =
     Some [Doc (JObj [(''sample_id'', JStr ''s1''), (''prompt'', JStr ''p''),
                      (''answer'', JStr ''a''),
                      (''evaluation_results'', JObj [(''score'', JInt 1)])])]"
  by code_simp

subsection \<open>Records without a sample id\<close>

text \<open>
  Claim C10. A line whose object has no truthy \<^verbatim>\<open>sample_id\<close> leaves the state of both
  loaders as it was, and both append operations write nothing for such a record. Every
  record in a loader's map and every record scheduled for processing has a truthy
  \<^verbatim>\<open>sample_id\<close>, and an append that changes the log has added one line whose record has
  a truthy \<^verbatim>\<open>sample_id\<close>.
\<close>

theorem sample_id_required:
  "(\<not> truthy (dget item ''sample_id'') \<longrightarrow>
      parse_infer (Doc (JObj item)) st = st \<and> parse_eval (Doc (JObj item)) st = st \<and>
      append_to_infer_log e item w = w \<and> append_to_eval_log e item w = w) \<and>
   (load_and_prepare_inference_tasks e w = Some (items, tasks) \<longrightarrow>
      (\<forall>kv \<in> set items. truthy (dget (snd kv) ''sample_id'')) \<and>
      (\<forall>t \<in> set tasks. truthy (dget t ''sample_id''))) \<and>
   (load_for_evaluation e w' = Some (items', tasks') \<longrightarrow>
      (\<forall>kv \<in> set items'. truthy (dget (snd kv) ''sample_id'')) \<and>
      (\<forall>t \<in> set tasks'. truthy (dget t ''sample_id''))) \<and>
   (append_to_infer_log e item' w \<noteq> w \<longrightarrow>
      truthy (dget item' ''sample_id'') \<and>
      append_to_infer_log e item' w = w(InferLog \<mapsto> file_lines w InferLog @ [Doc (JObj item')])) \<and>
   (append_to_eval_log e item' w \<noteq> w \<longrightarrow>
      truthy (dget item' ''sample_id'') \<and>
      append_to_eval_log e item' w = w(EvalLog \<mapsto> file_lines w EvalLog @ [Doc (JObj item')]))"
proof (intro conjI impI)
  assume "\<not> truthy (dget item ''sample_id'')"
  then show "parse_infer (Doc (JObj item)) st = st" "parse_eval (Doc (JObj item)) st = st"
    "append_to_infer_log e item w = w" "append_to_eval_log e item w = w"
    by (cases st; simp add: append_to_infer_log_def append_to_eval_log_def append_to_log_def)+
next
  assume "load_and_prepare_inference_tasks e w = Some (items, tasks)"
  then obtain pids where l: "load_infer_state e w = Some (items, pids)"
    and t: "tasks = infer_tasks retry_errors items pids"
    by (auto simp: load_and_prepare_inference_tasks_def split: option.splits)
  from load_infer_state_wf[OF l] have wf: "wf_items items" by simp
  then show "\<forall>kv \<in> set items. truthy (dget (snd kv) ''sample_id'')"
    by (simp add: wf_items_def)
  with t show "\<forall>t \<in> set tasks. truthy (dget t ''sample_id'')"
    by (auto simp: infer_tasks_def)
next
  assume "load_for_evaluation e w' = Some (items', tasks')"
  then obtain ev where l: "load_eval_state e w' = Some (items', ev)"
    and t: "tasks' = eval_tasks retry_eval_errors items' ev"
    by (auto simp: load_for_evaluation_def split: option.splits)
  from load_eval_state_wf[OF l] have wf: "wf_items items'" by simp
  then show "\<forall>kv \<in> set items'. truthy (dget (snd kv) ''sample_id'')"
    by (simp add: wf_items_def)
  with t show "\<forall>t \<in> set tasks'. truthy (dget t ''sample_id'')"
    by (auto simp: eval_tasks_def)
next
  assume "append_to_infer_log e item' w \<noteq> w"
  then show "truthy (dget item' ''sample_id'')"
    "append_to_infer_log e item' w = w(InferLog \<mapsto> file_lines w InferLog @ [Doc (JObj item')])"
    by (auto simp: append_to_infer_log_def append_to_log_def file_lines_def split: if_splits)
next
  assume "append_to_eval_log e item' w \<noteq> w"
  then show "truthy (dget item' ''sample_id'')"
    "append_to_eval_log e item' w = w(EvalLog \<mapsto> file_lines w EvalLog @ [Doc (JObj item')])"
    by (auto simp: append_to_eval_log_def append_to_log_def file_lines_def split: if_splits)
qed

text \<open>
  A line without id is skipped, a store with one record is loaded with that record
  scheduled, and an append of a record with an id adds its line.
\<close>

theorem sample_id_required_witness:
  "\<not> truthy (dget [(''prompt'', JStr ''p'')] ''sample_id'') \<and>
   parse_infer (Doc (JObj [(''prompt'', JStr ''p'')])) ([], {}) = ([], {}) \<and>
   parse_eval (Doc (JObj [(''prompt'', JStr ''p'')])) ([], {}) = ([], {}) \<and>
   append_to_infer_log quiet_env [(''prompt'', JStr ''p'')] world_prompted = world_prompted \<and>
   load_and_prepare_inference_tasks quiet_env world_prompted =
     Some ([(KStr ''s1'', prompted_item)], [prompted_item]) \<and>
   truthy (dget prompted_item ''sample_id'') \<and>
   load_for_evaluation quiet_env world_answered =
     Some ([(KStr ''s1'', answered_item)], [answered_item]) \<and>
   truthy (dget answered_item ''sample_id'') \<and>
   append_to_infer_log quiet_env answered_item world_prompted \<noteq> world_prompted \<and>
   append_to_infer_log quiet_env answered_item world_prompted =
     world_prompted(InferLog \<mapsto> [Doc (JObj answered_item)]) \<and>
   append_to_eval_log quiet_env answered_item world_prompted \<noteq> world_prompted \<and>
   append_to_eval_log quiet_env answered_item world_prompted =
     world_prompted(EvalLog \<mapsto> [Doc (JObj answered_item)])"
proof -
  have h0: "\<not> truthy (dget [(''prompt'', JStr ''p'')] ''sample_id'')"
    by (simp add: dget_def)
  have h1: "load_and_prepare_inference_tasks quiet_env world_prompted =
              Some ([(KStr ''s1'', prompted_item)], [prompted_item])"
    by code_simp
  have h2: "load_for_evaluation quiet_env world_answered =
              Some ([(KStr ''s1'', answered_item)], [answered_item])"
    by code_simp
  have l1: "file_lines world_prompted InferLog = []" "file_lines world_prompted EvalLog = []"
    by (simp_all add: file_lines_def world_prompted_def no_files_def)
  have h3: "append_to_infer_log quiet_env answered_item world_prompted \<noteq> world_prompted"
  proof
    assume "append_to_infer_log quiet_env answered_item world_prompted = world_prompted"
    then have "append_to_infer_log quiet_env answered_item world_prompted InferLog =
                 world_prompted InferLog"
      by simp
    then show False
      by (simp add: append_to_infer_log_def append_to_log_def answered_item_def dget_def
            quiet_env_def world_prompted_def no_files_def)
  qed
  have h4: "append_to_eval_log quiet_env answered_item world_prompted \<noteq> world_prompted"
  proof
    assume "append_to_eval_log quiet_env answered_item world_prompted = world_prompted"
    then have "append_to_eval_log quiet_env answered_item world_prompted EvalLog =
                 world_prompted EvalLog"
      by simp
    then show False
      by (simp add: append_to_eval_log_def append_to_log_def answered_item_def dget_def
            quiet_env_def world_prompted_def no_files_def)
  qed
  show ?thesis
    using h0 h1 h2 h3 h4 l1
      sample_id_required [where item = "[(''prompt'', JStr ''p'')]" and st = "([], {})"
         and e = quiet_env and w = world_prompted
         and items = "[(KStr ''s1'', prompted_item)]" and tasks = "[prompted_item]"
         and w' = world_answered
         and items' = "[(KStr ''s1'', answered_item)]" and tasks' = "[answered_item]"
         and item' = answered_item]
    by simp
qed

subsection \<open>Classification of the records that need processing\<close>

lemma parse_infer_ids:
  "snd st = answered_ids (fst st) \<Longrightarrow>
   snd (parse_infer l st) = answered_ids (fst (parse_infer l st))"
  by (induction l st rule: parse_infer.induct)
     (auto simp: Let_def answered_ids_def validly_answered_def update_conv' split: option.splits)

lemma parse_eval_ids:
  "snd st = evaluated_keys (fst st) \<Longrightarrow>
   snd (parse_eval l st) = evaluated_keys (fst (parse_eval l st))"
  by (induction l st rule: parse_eval.induct)
     (auto simp: Let_def evaluated_keys_def validly_evaluated_def update_conv' split: option.splits)

lemma replay_infer_ids:
  "snd st = answered_ids (fst st) \<Longrightarrow>
   snd (replay_infer ls st) = answered_ids (fst (replay_infer ls st))"
  unfolding replay_infer_fold by (induction ls arbitrary: st) (auto simp: parse_infer_ids)

lemma replay_eval_ids:
  "snd st = evaluated_keys (fst st) \<Longrightarrow>
   snd (replay_eval ls st) = evaluated_keys (fst (replay_eval ls st))"
  unfolding replay_eval_fold by (induction ls arbitrary: st) (auto simp: parse_eval_ids)

lemma parse_infer_distinct:
  "distinct (map fst (fst st)) \<Longrightarrow> distinct (map fst (fst (parse_infer l st)))"
  by (simp add: parse_infer_map distinct_update split: option.splits)

lemma parse_eval_distinct:
  "distinct (map fst (fst st)) \<Longrightarrow> distinct (map fst (fst (parse_eval l st)))"
  by (simp add: parse_eval_map distinct_update split: option.splits)

lemma replay_infer_distinct:
  "distinct (map fst (fst st)) \<Longrightarrow> distinct (map fst (fst (replay_infer ls st)))"
  unfolding replay_infer_fold by (induction ls arbitrary: st) (auto simp: parse_infer_distinct)

lemma replay_eval_distinct:
  "distinct (map fst (fst st)) \<Longrightarrow> distinct (map fst (fst (replay_eval ls st)))"
  unfolding replay_eval_fold by (induction ls arbitrary: st) (auto simp: parse_eval_distinct)

lemma load_infer_state_ids:
  assumes "load_infer_state e w = Some (items, ids)"
  shows "ids = answered_ids items" and "distinct (map fst items)"
proof -
  from load_infer_state_replay[OF assms]
  have r: "(items, ids) = replay_infer (file_lines w Store @ file_lines w InferLog) ([], {})" .
  have "snd (replay_infer (file_lines w Store @ file_lines w InferLog) ([], {})) =
        answered_ids (fst (replay_infer (file_lines w Store @ file_lines w InferLog) ([], {})))"
    by (rule replay_infer_ids) (simp add: answered_ids_def)
  with r show "ids = answered_ids items" by (metis fst_conv snd_conv)
  have "distinct (map fst (fst (replay_infer (file_lines w Store @ file_lines w InferLog) ([], {}))))"
    by (rule replay_infer_distinct) simp
  with r show "distinct (map fst items)" by (metis fst_conv)
qed

lemma load_eval_state_ids:
  assumes "load_eval_state e w = Some (items, ids)"
  shows "ids = evaluated_keys items" and "distinct (map fst items)"
proof -
  from load_eval_state_replay[OF assms]
  have r: "(items, ids) = replay_eval (file_lines w Store @ file_lines w EvalLog) ([], {})" .
  have "snd (replay_eval (file_lines w Store @ file_lines w EvalLog) ([], {})) =
        evaluated_keys (fst (replay_eval (file_lines w Store @ file_lines w EvalLog) ([], {})))"
    by (rule replay_eval_ids) (simp add: evaluated_keys_def)
  with r show "ids = evaluated_keys items" by (metis fst_conv snd_conv)
  have "distinct (map fst (fst (replay_eval (file_lines w Store @ file_lines w EvalLog) ([], {}))))"
    by (rule replay_eval_distinct) simp
  with r show "distinct (map fst items)" by (metis fst_conv)
qed

lemma infer_tasks_char:
  assumes "distinct (map fst items)"
  shows "infer_tasks r items (answered_ids items) =
           map snd (filter (\<lambda>kv. infer_pending r (snd kv)) items)"
proof -
  have "filter (infer_needs_processing r (answered_ids items)) items =
        filter (\<lambda>kv. infer_pending r (snd kv)) items"
  proof (rule filter_cong[OF refl])
    fix kv assume mem: "kv \<in> set items"
    obtain k d where kv: "kv = (k, d)" by (cases kv)
    with mem assms have "map_of items k = Some d" by simp
    then have "k \<in> answered_ids items \<longleftrightarrow> validly_answered d"
      by (simp add: answered_ids_def)
    then show "infer_needs_processing r (answered_ids items) kv = infer_pending r (snd kv)"
      by (auto simp: kv infer_needs_processing_def infer_pending_def Let_def)
  qed
  then show ?thesis by (simp add: infer_tasks_def)
qed

lemma eval_tasks_char:
  assumes "distinct (map fst items)"
  shows "eval_tasks r items (evaluated_keys items) =
           map snd (filter (\<lambda>kv. eval_pending r (snd kv)) items)"
proof -
  have "filter (eval_needs_processing r (evaluated_keys items)) items =
        filter (\<lambda>kv. eval_pending r (snd kv)) items"
  proof (rule filter_cong[OF refl])
    fix kv assume mem: "kv \<in> set items"
    obtain k d where kv: "kv = (k, d)" by (cases kv)
    with mem assms have "map_of items k = Some d" by simp
    then have "k \<in> evaluated_keys items \<longleftrightarrow> validly_evaluated d"
      by (simp add: evaluated_keys_def)
    then show "eval_needs_processing r (evaluated_keys items) kv = eval_pending r (snd kv)"
      by (auto simp: kv eval_needs_processing_def eval_pending_def validly_answered_def Let_def)
  qed
  then show ?thesis by (simp add: eval_tasks_def)
qed

text \<open>
  Claim C3. After the full replay the tracked ids are exactly the ids whose record in the
  map is validly done, so a later invalid line for an id retracts an earlier validity.
  The records that need processing are the records of the map that are not validly done
  for the stage, for infer with a prompt that did not fail, for evaluate with a valid
  answer; a flag decides whether error-marked records are among them, and the loaders set
  it to retry for infer and to not retry for evaluate. With the evaluate default the
  pending records are the validly answered ones whose \<^verbatim>\<open>evaluation_results\<close> is not an
  object.
\<close>

theorem needs_processing_classification:
  "(load_infer_state e w = Some (items, processed_ids) \<longrightarrow>
      processed_ids = answered_ids items \<and>
      (\<forall>retry. infer_tasks retry items processed_ids =
                 map snd (filter (\<lambda>kv. infer_pending retry (snd kv)) items))) \<and>
   (load_and_prepare_inference_tasks e w = Some (items, tasks) \<longrightarrow>
      tasks = map snd (filter (\<lambda>kv. infer_pending True (snd kv)) items)) \<and>
   (load_eval_state e w' = Some (items', evaluated_ids) \<longrightarrow>
      evaluated_ids = evaluated_keys items' \<and>
      (\<forall>retry. eval_tasks retry items' evaluated_ids =
                 map snd (filter (\<lambda>kv. eval_pending retry (snd kv)) items'))) \<and>
   (load_for_evaluation e w' = Some (items', tasks') \<longrightarrow>
      tasks' = map snd (filter (\<lambda>kv. eval_pending False (snd kv)) items')) \<and>
   eval_pending False d =
     (validly_answered d \<and> \<not> is_dict (dget d ''evaluation_results''))"
proof (intro conjI impI allI)
  assume l: "load_infer_state e w = Some (items, processed_ids)"
  show ids: "processed_ids = answered_ids items"
    by (rule load_infer_state_ids(1)[OF l])
  fix retry
  show "infer_tasks retry items processed_ids =
          map snd (filter (\<lambda>kv. infer_pending retry (snd kv)) items)"
    unfolding ids by (rule infer_tasks_char[OF load_infer_state_ids(2)[OF l]])
next
  assume "load_and_prepare_inference_tasks e w = Some (items, tasks)"
  then obtain ids where l: "load_infer_state e w = Some (items, ids)"
    and t: "tasks = infer_tasks True items ids"
    by (auto simp: load_and_prepare_inference_tasks_def retry_errors_def split: option.splits)
  show "tasks = map snd (filter (\<lambda>kv. infer_pending True (snd kv)) items)"
    unfolding t load_infer_state_ids(1)[OF l]
    by (rule infer_tasks_char[OF load_infer_state_ids(2)[OF l]])
next
  assume l: "load_eval_state e w' = Some (items', evaluated_ids)"
  show ids: "evaluated_ids = evaluated_keys items'"
    by (rule load_eval_state_ids(1)[OF l])
  fix retry
  show "eval_tasks retry items' evaluated_ids =
          map snd (filter (\<lambda>kv. eval_pending retry (snd kv)) items')"
    unfolding ids by (rule eval_tasks_char[OF load_eval_state_ids(2)[OF l]])
next
  assume "load_for_evaluation e w' = Some (items', tasks')"
  then obtain ids where l: "load_eval_state e w' = Some (items', ids)"
    and t: "tasks' = eval_tasks False items' ids"
    by (auto simp: load_for_evaluation_def retry_eval_errors_def split: option.splits)
  show "tasks' = map snd (filter (\<lambda>kv. eval_pending False (snd kv)) items')"
    unfolding t load_eval_state_ids(1)[OF l]
    by (rule eval_tasks_char[OF load_eval_state_ids(2)[OF l]])
next
  show "eval_pending False d =
          (validly_answered d \<and> \<not> is_dict (dget d ''evaluation_results''))"
    by (cases "dget d ''evaluation_results''")
       (auto simp: eval_pending_def validly_evaluated_def)
qed

text \<open>
  The answer of \<^verbatim>\<open>s1\<close> is valid in the store and an error in the log: the id is not
  among the processed ones and the record is scheduled again. The evaluation of \<^verbatim>\<open>s1\<close>
  is valid in the store and an error in the log: the id is not among the evaluated ones
  and the record is not scheduled.
\<close>

theorem needs_processing_classification_witness:
  "load_infer_state quiet_env world_answer_retracted = Some ([(KStr ''s1'', errored_item)], {}) \<and>
   {} = answered_ids [(KStr ''s1'', errored_item)] \<and>
   load_and_prepare_inference_tasks quiet_env world_answer_retracted =
     Some ([(KStr ''s1'', errored_item)], [errored_item]) \<and>
   [errored_item] =
     map snd (filter (\<lambda>kv. infer_pending True (snd kv)) [(KStr ''s1'', errored_item)]) \<and>
   load_eval_state quiet_env world_eval_retracted = Some ([(KStr ''s1'', eval_errored_item)], {}) \<and>
   {} = evaluated_keys [(KStr ''s1'', eval_errored_item)] \<and>
   load_for_evaluation quiet_env world_eval_retracted =
     Some ([(KStr ''s1'', eval_errored_item)], []) \<and>
   [] = map snd (filter (\<lambda>kv. eval_pending False (snd kv)) [(KStr ''s1'', eval_errored_item)]) \<and>
   eval_pending False answered_item =
     (validly_answered answered_item \<and> \<not> is_dict (dget answered_item ''evaluation_results''))"
proof -
  have h1: "load_infer_state quiet_env world_answer_retracted =
              Some ([(KStr ''s1'', errored_item)], {})"
    by code_simp
  have h2: "load_and_prepare_inference_tasks quiet_env world_answer_retracted =
              Some ([(KStr ''s1'', errored_item)], [errored_item])"
    by code_simp
  have h3: "load_eval_state quiet_env world_eval_retracted =
              Some ([(KStr ''s1'', eval_errored_item)], {})"
    by code_simp
  have h4: "load_for_evaluation quiet_env world_eval_retracted =
              Some ([(KStr ''s1'', eval_errored_item)], [])"
    by code_simp
  note c = needs_processing_classification [where e = quiet_env and w = world_answer_retracted
         and items = "[(KStr ''s1'', errored_item)]" and processed_ids = "{}"
         and tasks = "[errored_item]" and w' = world_eval_retracted
         and items' = "[(KStr ''s1'', eval_errored_item)]" and evaluated_ids = "{}"
         and tasks' = "[]" and d = answered_item]
  from c h1 have c1: "{} = answered_ids [(KStr ''s1'', errored_item)]"
    by blast
  from c h2 have c2: "[errored_item] =
      map snd (filter (\<lambda>kv. infer_pending True (snd kv)) [(KStr ''s1'', errored_item)])"
    by blast
  from c h3 have c3: "{} = evaluated_keys [(KStr ''s1'', eval_errored_item)]"
    by blast
  from c h4 have c4: "[] =
      map snd (filter (\<lambda>kv. eval_pending False (snd kv)) [(KStr ''s1'', eval_errored_item)])"
    by blast
  from c have c5: "eval_pending False answered_item =
      (validly_answered answered_item \<and> \<not> is_dict (dget answered_item ''evaluation_results''))"
    by blast
  from h1 c1 h2 c2 h3 c3 h4 c4 c5 show ?thesis
    by blast
qed

subsection \<open>Safe rewrite\<close>

lemma write_items_fails:
  "fst (write_items e f items acc) = write_fault e f (length acc) (length (dict_lines items))"
proof (induction items arbitrary: acc)
  case Nil
  show ?case by (simp add: write_fault_def dict_lines_def)
next
  case (Cons item rest)
  show ?case
  proof (cases "is_dict item")
    case False
    with Cons show ?thesis by (simp add: dict_lines_def)
  next
    case True
    show ?thesis
    proof (cases "faults e (OpWrite f (length acc))")
      case t: True
      with True show ?thesis by (auto simp: write_fault_def dict_lines_def)
    next
      case f: False
      have "write_fault e f (length acc) (Suc (length (dict_lines rest))) =
            write_fault e f (Suc (length acc)) (length (dict_lines rest))"
        unfolding write_fault_def using f
        by (metis Suc_leD Suc_leI add_Suc add_Suc_right le_neq_implies_less)
      with True f Cons[of "acc @ [Doc item]"] show ?thesis
        by (simp add: dict_lines_def)
    qed
  qed
qed

lemma write_items_ok:
  "\<not> fst (write_items e f items acc) \<Longrightarrow>
   snd (write_items e f items acc) = acc @ dict_lines items"
  by (induction items arbitrary: acc) (auto simp: dict_lines_def split: if_splits)

lemma write_items_cases:
  obtains (aborted) ls where "write_items e f items [] = (True, ls)"
      "write_fault e f 0 (length (dict_lines items))"
  | (complete) "write_items e f items [] = (False, dict_lines items)"
      "\<not> write_fault e f 0 (length (dict_lines items))"
proof (cases "fst (write_items e f items [])")
  case True
  then have "write_fault e f 0 (length (dict_lines items))"
    using write_items_fails[of e f items "[]"] by simp
  moreover from True have "write_items e f items [] = (True, snd (write_items e f items []))"
    by (metis prod.collapse)
  ultimately show ?thesis by (rule aborted[rotated])
next
  case False
  then have "\<not> write_fault e f 0 (length (dict_lines items))"
    using write_items_fails[of e f items "[]"] by simp
  moreover from False have "write_items e f items [] = (False, dict_lines items)"
    using write_items_ok[of e f items "[]"] by (metis append_Nil prod.collapse)
  ultimately show ?thesis by (rule complete[rotated])
qed

lemma rewrite_attempt_result:
  "fst (rewrite_attempt e data target r w) = None \<longleftrightarrow> \<not> rewrite_fails e data target r"
proof (cases data)
  case (JArr items)
  show ?thesis
    by (cases rule: write_items_cases[of e "Tmp target" items])
       (simp_all add: JArr rewrite_attempt_def rewrite_fails_def serialize_fails_def Let_def)
qed (simp_all add: rewrite_attempt_def rewrite_fails_def serialize_fails_def Let_def)

lemma rewrite_attempt_ok:
  "fst (rewrite_attempt e data target r w) = None \<Longrightarrow>
     snd (rewrite_attempt e data target r w) =
       w(target \<mapsto> serialized data r, Tmp target := None)"
proof (cases data)
  case (JArr items)
  assume a: "fst (rewrite_attempt e data target r w) = None"
  show ?thesis
    using a
    by (cases rule: write_items_cases[of e "Tmp target" items])
       (auto simp add: JArr rewrite_attempt_def serialized_def Let_def fun_upd_twist
             split: if_splits)
qed (auto simp add: rewrite_attempt_def serialized_def Let_def fun_upd_twist split: if_splits)

lemma rewrite_attempt_failed:
  "fst (rewrite_attempt e data target r w) \<noteq> None \<Longrightarrow> f \<noteq> Tmp target \<Longrightarrow>
     snd (rewrite_attempt e data target r w) f = w f"
proof (cases data)
  case (JArr items)
  assume a: "fst (rewrite_attempt e data target r w) \<noteq> None" "f \<noteq> Tmp target"
  show ?thesis
    using a
    by (cases rule: write_items_cases[of e "Tmp target" items])
       (auto simp add: JArr rewrite_attempt_def Let_def split: if_splits)
qed (auto simp add: rewrite_attempt_def Let_def split: if_splits)


lemma safe_rewrite_file_ok:
  assumes "\<not> rewrite_fails e data target r"
  shows "safe_rewrite_file e data target r w =
           (None, w(target \<mapsto> serialized data r, Tmp target := None))"
proof -
  from assms have "fst (rewrite_attempt e data target r w) = None"
    by (simp add: rewrite_attempt_result)
  with rewrite_attempt_ok[OF this]
  have "rewrite_attempt e data target r w =
          (None, w(target \<mapsto> serialized data r, Tmp target := None))"
    by (metis prod.collapse)
  then show ?thesis by (simp add: safe_rewrite_file_def Let_def)
qed

lemma safe_rewrite_file_failed:
  assumes "rewrite_fails e data target r"
  shows "fst (safe_rewrite_file e data target r w) \<noteq> None"
    and "f \<noteq> Tmp target \<Longrightarrow> snd (safe_rewrite_file e data target r w) f = w f"
    and "\<not> faults e (OpRemove (Tmp target)) \<Longrightarrow>
           snd (safe_rewrite_file e data target r w) (Tmp target) = None"
proof -
  from assms have n: "fst (rewrite_attempt e data target r w) \<noteq> None"
    by (simp add: rewrite_attempt_result)
  then obtain ex w1 where ra: "rewrite_attempt e data target r w = (Some ex, w1)"
    by (cases "rewrite_attempt e data target r w") auto
  show "fst (safe_rewrite_file e data target r w) \<noteq> None"
    by (simp add: safe_rewrite_file_def ra Let_def)
  show "snd (safe_rewrite_file e data target r w) f = w f" if "f \<noteq> Tmp target"
    using rewrite_attempt_failed[OF n that] that
    by (simp add: safe_rewrite_file_def ra Let_def)
  show "snd (safe_rewrite_file e data target r w) (Tmp target) = None"
    if "\<not> faults e (OpRemove (Tmp target))"
    using that by (simp add: safe_rewrite_file_def ra exists_file_def Let_def)
qed




subsection \<open>Merge of a Stage Log\<close>

lemma serialized_map_values:
  "serialized (map_values m) False = map (\<lambda>kv. Doc (JObj (snd kv))) m"
  by (simp add: serialized_def map_values_def dict_lines_def filter_map comp_def)

lemma merge_log_to_main_ok:
  assumes "m \<noteq> []" "\<not> rewrite_fails e (map_values m) Store False"
    "log_file \<noteq> Store" "log_file \<noteq> Tmp Store"
  shows "merge_log_to_main e log_file m w Store = Some (map (\<lambda>kv. Doc (JObj (snd kv))) m)"
    and "merge_log_to_main e log_file m w log_file =
           (if faults e (OpRemove log_file) then w log_file else None)"
  using assms
  by (auto simp: merge_log_to_main_def safe_rewrite_file_ok serialized_map_values exists_file_def)

lemma merge_log_to_main_failed:
  assumes "m \<noteq> []" "rewrite_fails e (map_values m) Store False" "f \<noteq> Tmp Store"
  shows "merge_log_to_main e log_file m w f = w f"
proof -
  obtain r w1 where s: "safe_rewrite_file e (map_values m) Store False w = (r, w1)"
    by (cases "safe_rewrite_file e (map_values m) Store False w")
  with safe_rewrite_file_failed(1)[OF assms(2), of w] obtain ex where "r = Some ex"
    by auto
  with s assms(1) have "merge_log_to_main e log_file m w = w1"
    by (simp add: merge_log_to_main_def)
  with s safe_rewrite_file_failed(2)[OF assms(2,3), of w] show ?thesis
    by simp
qed

text \<open>
  Claim C6, as amended. For a merge of a non-empty map, for the inference log and for the
  evaluation log alike: when the safe rewrite of the store succeeds, the store holds the
  records of the map and the Stage Log is deleted provided its removal succeeds (a
  failing removal is reported as a warning and the log stays as it was); when the
  rewrite fails, the Stage Log and the store are as before.
\<close>

theorem merge_log_outcome:
  "m \<noteq> [] \<longrightarrow>
     (\<not> rewrite_fails e (map_values m) Store False \<longrightarrow>
        merge_infer_log_to_main e m w Store = Some (map (\<lambda>kv. Doc (JObj (snd kv))) m) \<and>
        merge_eval_log_to_main e m w Store = Some (map (\<lambda>kv. Doc (JObj (snd kv))) m) \<and>
        (\<not> faults e (OpRemove InferLog) \<longrightarrow> merge_infer_log_to_main e m w InferLog = None) \<and>
        (\<not> faults e (OpRemove EvalLog) \<longrightarrow> merge_eval_log_to_main e m w EvalLog = None) \<and>
        (faults e (OpRemove InferLog) \<longrightarrow> merge_infer_log_to_main e m w InferLog = w InferLog) \<and>
        (faults e (OpRemove EvalLog) \<longrightarrow> merge_eval_log_to_main e m w EvalLog = w EvalLog)) \<and>
     (rewrite_fails e (map_values m) Store False \<longrightarrow>
        merge_infer_log_to_main e m w InferLog = w InferLog \<and>
        merge_infer_log_to_main e m w Store = w Store \<and>
        merge_eval_log_to_main e m w EvalLog = w EvalLog \<and>
        merge_eval_log_to_main e m w Store = w Store)"
proof (intro impI conjI)
  assume m: "m \<noteq> []" and ok: "\<not> rewrite_fails e (map_values m) Store False"
  show "merge_infer_log_to_main e m w Store = Some (map (\<lambda>kv. Doc (JObj (snd kv))) m)"
    unfolding merge_infer_log_to_main_def by (rule merge_log_to_main_ok(1)[OF m ok]) simp_all
  show "merge_eval_log_to_main e m w Store = Some (map (\<lambda>kv. Doc (JObj (snd kv))) m)"
    unfolding merge_eval_log_to_main_def by (rule merge_log_to_main_ok(1)[OF m ok]) simp_all
  have i: "merge_infer_log_to_main e m w InferLog =
             (if faults e (OpRemove InferLog) then w InferLog else None)"
    unfolding merge_infer_log_to_main_def by (rule merge_log_to_main_ok(2)[OF m ok]) simp_all
  have v: "merge_eval_log_to_main e m w EvalLog =
             (if faults e (OpRemove EvalLog) then w EvalLog else None)"
    unfolding merge_eval_log_to_main_def by (rule merge_log_to_main_ok(2)[OF m ok]) simp_all
  show "merge_infer_log_to_main e m w InferLog = None" if "\<not> faults e (OpRemove InferLog)"
    using i that by simp
  show "merge_eval_log_to_main e m w EvalLog = None" if "\<not> faults e (OpRemove EvalLog)"
    using v that by simp
  show "merge_infer_log_to_main e m w InferLog = w InferLog" if "faults e (OpRemove InferLog)"
    using i that by simp
  show "merge_eval_log_to_main e m w EvalLog = w EvalLog" if "faults e (OpRemove EvalLog)"
    using v that by simp
next
  assume m: "m \<noteq> []" and bad: "rewrite_fails e (map_values m) Store False"
  show "merge_infer_log_to_main e m w InferLog = w InferLog"
    "merge_infer_log_to_main e m w Store = w Store"
    "merge_eval_log_to_main e m w EvalLog = w EvalLog"
    "merge_eval_log_to_main e m w Store = w Store"
    unfolding merge_infer_log_to_main_def merge_eval_log_to_main_def
    by (simp_all add: merge_log_to_main_failed[OF m bad])
qed

text \<open>
  The merge of the pending inference log without faults, with a failing move, and with a
  failing removal of the log.
\<close>

theorem merge_log_outcome_witness:
  "[(KStr ''s1'', answered_item)] \<noteq> [] \<and>
   \<not> rewrite_fails quiet_env (map_values [(KStr ''s1'', answered_item)]) Store False \<and>
   \<not> faults quiet_env (OpRemove InferLog) \<and> \<not> faults quiet_env (OpRemove EvalLog) \<and>
   merge_infer_log_to_main quiet_env [(KStr ''s1'', answered_item)] world_infer_pending Store =
     Some [Doc (JObj answered_item)] \<and>
   merge_infer_log_to_main quiet_env [(KStr ''s1'', answered_item)] world_infer_pending InferLog =
     None \<and>
   merge_eval_log_to_main quiet_env [(KStr ''s1'', answered_item)] world_eval_pending EvalLog =
     None \<and>
   rewrite_fails move_fails_env (map_values [(KStr ''s1'', answered_item)]) Store False \<and>
   merge_infer_log_to_main move_fails_env [(KStr ''s1'', answered_item)] world_infer_pending
     InferLog = world_infer_pending InferLog \<and>
   merge_infer_log_to_main move_fails_env [(KStr ''s1'', answered_item)] world_infer_pending
     Store = world_infer_pending Store \<and>
   \<not> rewrite_fails sticky_log_env (map_values [(KStr ''s1'', answered_item)]) Store False \<and>
   faults sticky_log_env (OpRemove InferLog) \<and>
   merge_infer_log_to_main sticky_log_env [(KStr ''s1'', answered_item)] world_infer_pending
     InferLog = world_infer_pending InferLog \<and>
   \<not> rewrite_fails sticky_eval_log_env (map_values [(KStr ''s1'', answered_item)]) Store False \<and>
   faults sticky_eval_log_env (OpRemove EvalLog) \<and>
   merge_eval_log_to_main sticky_eval_log_env [(KStr ''s1'', answered_item)] world_eval_pending
     EvalLog = world_eval_pending EvalLog"
proof -
  have h1: "\<not> rewrite_fails quiet_env (map_values [(KStr ''s1'', answered_item)]) Store False"
    by (simp add: rewrite_fails_def serialize_fails_def write_fault_def quiet_env_def
          map_values_def)
  have h2: "rewrite_fails move_fails_env (map_values [(KStr ''s1'', answered_item)]) Store False"
    by (simp add: rewrite_fails_def move_fails_env_def)
  have h3: "\<not> rewrite_fails sticky_log_env (map_values [(KStr ''s1'', answered_item)]) Store False"
    by (simp add: rewrite_fails_def serialize_fails_def write_fault_def sticky_log_env_def
          quiet_env_def map_values_def)
  have h4: "\<not> rewrite_fails sticky_eval_log_env (map_values [(KStr ''s1'', answered_item)])
              Store False"
    by (simp add: rewrite_fails_def serialize_fails_def write_fault_def sticky_eval_log_env_def
          quiet_env_def map_values_def)
  have f: "\<not> faults quiet_env (OpRemove InferLog)" "\<not> faults quiet_env (OpRemove EvalLog)"
    "faults sticky_log_env (OpRemove InferLog)" "faults sticky_eval_log_env (OpRemove EvalLog)"
    by (simp_all add: quiet_env_def sticky_log_env_def sticky_eval_log_env_def)
  show ?thesis
    using h1 h2 h3 h4 f
      merge_log_outcome [of "[(KStr ''s1'', answered_item)]" quiet_env world_infer_pending]
      merge_log_outcome [of "[(KStr ''s1'', answered_item)]" quiet_env world_eval_pending]
      merge_log_outcome [of "[(KStr ''s1'', answered_item)]" move_fails_env world_infer_pending]
      merge_log_outcome [of "[(KStr ''s1'', answered_item)]" sticky_log_env world_infer_pending]
      merge_log_outcome [of "[(KStr ''s1'', answered_item)]" sticky_eval_log_env
         world_eval_pending]
    by simp
qed

text \<open>
  Claim C6 as it is written fails when the log cannot be removed: the safe rewrite of
  the store succeeds, \<^verbatim>\<open>os.remove\<close> raises \<^verbatim>\<open>OSError\<close>, a warning is printed and the
  inference log is still there with its line.
\<close>

theorem log_kept_after_successful_rewrite_counterexample:
  "fst (safe_rewrite_file sticky_log_env (map_values [(KStr ''s1'', answered_item)]) Store False
          world_infer_pending) = None \<and>
   merge_infer_log_to_main sticky_log_env [(KStr ''s1'', answered_item)] world_infer_pending
     Store = Some [Doc (JObj answered_item)] \<and>
   merge_infer_log_to_main sticky_log_env [(KStr ''s1'', answered_item)] world_infer_pending
     InferLog = Some [Doc (JObj answered_item)]"
  by code_simp

subsection \<open>Workers and the drain loop\<close>

lemma infer_error_msg_prefix: "is_error_answer (JStr (infer_error_msg e item ex))"
  by (cases ex) (simp add: infer_error_msg_def)

lemma eval_error_msg_truthy: "truthy (JStr (eval_error_msg e item ex))"
  by (cases ex) (simp add: eval_error_msg_def)

lemma infer_try_sample_id: "infer_try e item = Inr item' \<Longrightarrow> dget item' ''sample_id'' = dget item ''sample_id''"
  by (auto simp: infer_try_def Let_def dget_dset split: sum.splits if_splits)

lemma eval_try_sample_id: "eval_try e item = Inr item' \<Longrightarrow> dget item' ''sample_id'' = dget item ''sample_id''"
  by (auto simp: eval_try_def Let_def dget_dset split: sum.splits if_splits)

lemma infer_worker_sample_id: "dget (infer_worker e item) ''sample_id'' = dget item ''sample_id''"
  by (auto simp: infer_worker_def Let_def dget_dset dest: infer_try_sample_id split: sum.splits)

lemma eval_worker_sample_id: "dget (eval_worker e item) ''sample_id'' = dget item ''sample_id''"
  by (auto simp: eval_worker_def Let_def dget_dset dest: eval_try_sample_id split: sum.splits)

lemma file_lines_append_to_log:
  "truthy (dget d ''sample_id'') \<Longrightarrow>
   file_lines (append_to_log e lf d w) lf = file_lines w lf @ appended_lines e lf [d]"
  by (simp add: append_to_log_def file_lines_def appended_lines_def Let_def)

lemma appended_lines_Cons:
  "appended_lines e lf (d # ds) = appended_lines e lf [d] @ appended_lines e lf ds"
  by (simp add: appended_lines_def)

lemma drain_all:
  assumes "\<forall>t \<in> set tasks. keyed t" "\<And>t. dget (worker t) ''sample_id'' = dget t ''sample_id''"
  shows "\<exists>w' items'. drain worker (append_to_log e lf) tasks (w, items, n, ok) =
            (w', items', n + length tasks, ok) \<and>
          file_lines w' lf = file_lines w lf @ appended_lines e lf (map worker tasks)"
  using assms(1)
proof (induction tasks arbitrary: w items n)
  case Nil
  show ?case by (simp add: appended_lines_def)
next
  case (Cons t ts)
  from Cons.prems have kt: "keyed t" and kts: "\<forall>t \<in> set ts. keyed t" by simp_all
  from kt obtain k where k: "hash_key (dget t ''sample_id'') = Some k" and tr: "truthy (dget t ''sample_id'')"
    by (auto simp: keyed_def)
  from Cons.IH[OF kts, of "append_to_log e lf (worker t) w" "AList.update k (worker t) items" "Suc n"]
  obtain w' items' where d: "drain worker (append_to_log e lf) ts
        (append_to_log e lf (worker t) w, AList.update k (worker t) items, Suc n, ok) =
        (w', items', Suc n + length ts, ok)"
    and f: "file_lines w' lf = file_lines (append_to_log e lf (worker t) w) lf @ appended_lines e lf (map worker ts)"
    by blast
  from tr assms(2) have "truthy (dget (worker t) ''sample_id'')" by simp
  from file_lines_append_to_log[OF this, of e lf w] f
  have "file_lines w' lf = file_lines w lf @ appended_lines e lf (map worker (t # ts))"
    using appended_lines_Cons[of e lf "worker t" "map worker ts"] by simp
  with d k tr show ?case by (simp add: Let_def)
qed


lemma tasks_keyed_infer:
  assumes "load_and_prepare_inference_tasks e w = Some (items, tasks)"
  shows "\<forall>t \<in> set tasks. keyed t"
proof -
  from assms obtain ids where l: "load_infer_state e w = Some (items, ids)"
    and t: "tasks = infer_tasks retry_errors items ids"
    by (auto simp: load_and_prepare_inference_tasks_def split: option.splits)
  from load_infer_state_wf[OF l] have "wf_items items" by simp
  with t show ?thesis by (auto simp: infer_tasks_def wf_items_def keyed_def)
qed

lemma tasks_keyed_eval:
  assumes "load_for_evaluation e w = Some (items, tasks)"
  shows "\<forall>t \<in> set tasks. keyed t"
proof -
  from assms obtain ids where l: "load_eval_state e w = Some (items, ids)"
    and t: "tasks = eval_tasks retry_eval_errors items ids"
    by (auto simp: load_for_evaluation_def split: option.splits)
  from load_eval_state_wf[OF l] have "wf_items items" by simp
  with t show ?thesis by (auto simp: eval_tasks_def wf_items_def keyed_def)
qed

text \<open>
  Claim C8. When the \<^verbatim>\<open>try\<close> block of a worker raises, and in particular when the
  processor of the item raises, the worker returns the record with the stage's output
  field set to the error value: an answer that starts with \<^verbatim>\<open>ERROR:\<close> for infer, an
  object with a truthy \<^verbatim>\<open>error\<close> entry for evaluate. The duration field is set on every
  path. A run over the records the loader scheduled completes all of them, whichever
  of them failed, and the Stage Log gains the line of every result whose append did not
  fail, in order (the pool is modelled as sequential execution in task order).
\<close>

theorem worker_failure_isolated:
  "(infer_try e item = Inl ex \<longrightarrow>
      dget (infer_worker e item) ''answer'' = JStr (infer_error_msg e item ex) \<and>
      is_error_answer (dget (infer_worker e item) ''answer'')) \<and>
   (runner_of_item e item = Inr rn \<and> dget item ''prompt'' \<noteq> JNull \<and>
    dget item ''prompt'' \<noteq> prompt_failed \<and>
    call_api e (dget item ''prompt'') (dget_default item ''eval_args'' (JObj [])) = Inl ex \<longrightarrow>
      infer_try e item = Inl ex) \<and>
   has_key (infer_worker e item) ''inference_duration_sec'' \<and>
   dget (infer_worker e item) ''inference_duration_sec'' = JFloat (infer_elapsed e item) \<and>
   (eval_try e item' = Inl ex' \<longrightarrow>
      dget (eval_worker e item') ''evaluation_results'' =
        JObj [(''error'', JStr (eval_error_msg e item' ex'))] \<and>
      is_eval_error (dget (eval_worker e item') ''evaluation_results'')) \<and>
   (runner_of_item e item' = Inr rn' \<and>
    evaluate_response e rn' (dget item' ''answer'') item' = Inl ex' \<longrightarrow>
      eval_try e item' = Inl ex') \<and>
   has_key (eval_worker e item') ''evaluation_duration_sec'' \<and>
   dget (eval_worker e item') ''evaluation_duration_sec'' = JFloat (eval_elapsed e item') \<and>
   (load_and_prepare_inference_tasks e w = Some (items, tasks) \<longrightarrow>
      (\<exists>w1 items1.
         drain (infer_worker e) (append_to_infer_log e) tasks (w, items, 0, True) =
           (w1, items1, length tasks, True) \<and>
         file_lines w1 InferLog =
           file_lines w InferLog @ appended_lines e InferLog (map (infer_worker e) tasks))) \<and>
   (load_for_evaluation e w' = Some (items', tasks') \<longrightarrow>
      (\<exists>w1 items1.
         drain (eval_worker e) (append_to_eval_log e) tasks' (w', items', 0, True) =
           (w1, items1, length tasks', True) \<and>
         file_lines w1 EvalLog =
           file_lines w' EvalLog @ appended_lines e EvalLog (map (eval_worker e) tasks')))"
proof (intro conjI impI)
  assume "infer_try e item = Inl ex"
  then show "dget (infer_worker e item) ''answer'' = JStr (infer_error_msg e item ex)"
    by (simp add: infer_worker_def dget_dset)
  then show "is_error_answer (dget (infer_worker e item) ''answer'')"
    using infer_error_msg_prefix[of e item ex] by simp
next
  assume "runner_of_item e item = Inr rn \<and> dget item ''prompt'' \<noteq> JNull \<and>
    dget item ''prompt'' \<noteq> prompt_failed \<and>
    call_api e (dget item ''prompt'') (dget_default item ''eval_args'' (JObj [])) = Inl ex"
  then show "infer_try e item = Inl ex"
    by (simp add: infer_try_def)
next
  show "has_key (infer_worker e item) ''inference_duration_sec''"
    by (simp add: infer_worker_def has_key_dset)
  show "dget (infer_worker e item) ''inference_duration_sec'' = JFloat (infer_elapsed e item)"
    by (simp add: infer_worker_def dget_dset)
next
  assume "eval_try e item' = Inl ex'"
  then show "dget (eval_worker e item') ''evaluation_results'' =
        JObj [(''error'', JStr (eval_error_msg e item' ex'))]"
    by (simp add: eval_worker_def dget_dset)
  then show "is_eval_error (dget (eval_worker e item') ''evaluation_results'')"
    using eval_error_msg_truthy[of e item' ex'] by (simp add: dget_def)
next
  assume "runner_of_item e item' = Inr rn' \<and>
    evaluate_response e rn' (dget item' ''answer'') item' = Inl ex'"
  then show "eval_try e item' = Inl ex'"
    by (simp add: eval_try_def)
next
  show "has_key (eval_worker e item') ''evaluation_duration_sec''"
    by (simp add: eval_worker_def has_key_dset)
  show "dget (eval_worker e item') ''evaluation_duration_sec'' = JFloat (eval_elapsed e item')"
    by (simp add: eval_worker_def dget_dset)
next
  assume "load_and_prepare_inference_tasks e w = Some (items, tasks)"
  then have "\<forall>t \<in> set tasks. keyed t" by (rule tasks_keyed_infer)
  from drain_all[where worker = "infer_worker e" and e = e and lf = InferLog and w = w
      and items = items and n = 0 and ok = True, OF this infer_worker_sample_id]
  show "\<exists>w1 items1.
         drain (infer_worker e) (append_to_infer_log e) tasks (w, items, 0, True) =
           (w1, items1, length tasks, True) \<and>
         file_lines w1 InferLog =
           file_lines w InferLog @ appended_lines e InferLog (map (infer_worker e) tasks)"
    by (simp add: append_to_infer_log_def[abs_def])
next
  assume "load_for_evaluation e w' = Some (items', tasks')"
  then have "\<forall>t \<in> set tasks'. keyed t" by (rule tasks_keyed_eval)
  from drain_all[where worker = "eval_worker e" and e = e and lf = EvalLog and w = w'
      and items = items' and n = 0 and ok = True, OF this eval_worker_sample_id]
  show "\<exists>w1 items1.
         drain (eval_worker e) (append_to_eval_log e) tasks' (w', items', 0, True) =
           (w1, items1, length tasks', True) \<and>
         file_lines w1 EvalLog =
           file_lines w' EvalLog @ appended_lines e EvalLog (map (eval_worker e) tasks')"
    by (simp add: append_to_eval_log_def[abs_def])
qed


text \<open>
  Of three records waiting for inference the processor raises for \<^verbatim>\<open>s1\<close>, of two
  records waiting for evaluation the evaluator raises for \<^verbatim>\<open>s1\<close>; all of them reach
  the log.
\<close>

theorem worker_failure_isolated_witness:
  "infer_try flaky_env (pending_item ''s1'' ''bad'') = Inl api_exn \<and>
   runner_of_item flaky_env (pending_item ''s1'' ''bad'') = Inr ''a/b'' \<and>
   dget (infer_worker flaky_env (pending_item ''s1'' ''bad'')) ''answer'' =
     JStr (infer_error_msg flaky_env (pending_item ''s1'' ''bad'') api_exn) \<and>
   is_error_answer (dget (infer_worker flaky_env (pending_item ''s1'' ''bad'')) ''answer'') \<and>
   dget (infer_worker flaky_env (pending_item ''s1'' ''bad'')) ''inference_duration_sec'' =
     JFloat 2 \<and>
   eval_try flaky_env (given_answer ''s1'' ''bad'') = Inl eval_exn \<and>
   runner_of_item flaky_env (given_answer ''s1'' ''bad'') = Inr ''a/b'' \<and>
   dget (eval_worker flaky_env (given_answer ''s1'' ''bad'')) ''evaluation_results'' =
     JObj [(''error'', JStr (eval_error_msg flaky_env (given_answer ''s1'' ''bad'') eval_exn))] \<and>
   is_eval_error (dget (eval_worker flaky_env (given_answer ''s1'' ''bad'')) ''evaluation_results'') \<and>
   dget (eval_worker flaky_env (given_answer ''s1'' ''bad'')) ''evaluation_duration_sec'' =
     JFloat 3 \<and>
   load_and_prepare_inference_tasks flaky_env world_three_prompted =
     Some ([(KStr ''s0'', pending_item ''s0'' ''p''), (KStr ''s1'', pending_item ''s1'' ''bad''),
            (KStr ''s2'', pending_item ''s2'' ''p'')],
           [pending_item ''s0'' ''p'', pending_item ''s1'' ''bad'', pending_item ''s2'' ''p'']) \<and>
   (\<exists>w1 items1.
      drain (infer_worker flaky_env) (append_to_infer_log flaky_env)
        [pending_item ''s0'' ''p'', pending_item ''s1'' ''bad'', pending_item ''s2'' ''p'']
        (world_three_prompted,
         [(KStr ''s0'', pending_item ''s0'' ''p''), (KStr ''s1'', pending_item ''s1'' ''bad''),
          (KStr ''s2'', pending_item ''s2'' ''p'')], 0, True) = (w1, items1, 3, True) \<and>
      file_lines w1 InferLog =
        [Doc (JObj (infer_worker flaky_env (pending_item ''s0'' ''p''))),
         Doc (JObj (infer_worker flaky_env (pending_item ''s1'' ''bad''))),
         Doc (JObj (infer_worker flaky_env (pending_item ''s2'' ''p'')))]) \<and>
   load_for_evaluation flaky_env world_two_answered =
     Some ([(KStr ''s0'', given_answer ''s0'' ''ans''), (KStr ''s1'', given_answer ''s1'' ''bad'')],
           [given_answer ''s0'' ''ans'', given_answer ''s1'' ''bad'']) \<and>
   (\<exists>w1 items1.
      drain (eval_worker flaky_env) (append_to_eval_log flaky_env)
        [given_answer ''s0'' ''ans'', given_answer ''s1'' ''bad'']
        (world_two_answered,
         [(KStr ''s0'', given_answer ''s0'' ''ans''), (KStr ''s1'', given_answer ''s1'' ''bad'')],
         0, True) = (w1, items1, 2, True) \<and>
      file_lines w1 EvalLog =
        [Doc (JObj (eval_worker flaky_env (given_answer ''s0'' ''ans''))),
         Doc (JObj (eval_worker flaky_env (given_answer ''s1'' ''bad'')))])"
proof -
  have h1: "infer_try flaky_env (pending_item ''s1'' ''bad'') = Inl api_exn"
    by code_simp
  have h2: "runner_of_item flaky_env (pending_item ''s1'' ''bad'') = Inr ''a/b''"
    by code_simp
  have h3: "eval_try flaky_env (given_answer ''s1'' ''bad'') = Inl eval_exn"
    by code_simp
  have h4: "runner_of_item flaky_env (given_answer ''s1'' ''bad'') = Inr ''a/b''"
    by code_simp
  have h5: "load_and_prepare_inference_tasks flaky_env world_three_prompted =
     Some ([(KStr ''s0'', pending_item ''s0'' ''p''), (KStr ''s1'', pending_item ''s1'' ''bad''),
            (KStr ''s2'', pending_item ''s2'' ''p'')],
           [pending_item ''s0'' ''p'', pending_item ''s1'' ''bad'', pending_item ''s2'' ''p''])"
    by code_simp
  have h6: "load_for_evaluation flaky_env world_two_answered =
     Some ([(KStr ''s0'', given_answer ''s0'' ''ans''), (KStr ''s1'', given_answer ''s1'' ''bad'')],
           [given_answer ''s0'' ''ans'', given_answer ''s1'' ''bad''])"
    by code_simp
  have t: "infer_elapsed flaky_env (pending_item ''s1'' ''bad'') = 2"
    "eval_elapsed flaky_env (given_answer ''s1'' ''bad'') = 3"
    by (simp_all add: flaky_env_def quiet_env_def)
  have l: "file_lines world_three_prompted InferLog = []"
    "file_lines world_two_answered EvalLog = []"
    by (simp_all add: file_lines_def world_three_prompted_def world_two_answered_def no_files_def)
  have a: "appended_lines flaky_env InferLog ds = map (\<lambda>d. Doc (JObj d)) ds"
    "appended_lines flaky_env EvalLog ds = map (\<lambda>d. Doc (JObj d)) ds" for ds
    by (simp_all add: appended_lines_def flaky_env_def quiet_env_def)
  note c = worker_failure_isolated [where e = flaky_env
      and item = "pending_item ''s1'' ''bad''" and ex = api_exn and rn = "''a/b''"
      and item' = "given_answer ''s1'' ''bad''" and ex' = eval_exn and rn' = "''a/b''"
      and w = world_three_prompted
      and items = "[(KStr ''s0'', pending_item ''s0'' ''p''),
                    (KStr ''s1'', pending_item ''s1'' ''bad''),
                    (KStr ''s2'', pending_item ''s2'' ''p'')]"
      and tasks = "[pending_item ''s0'' ''p'', pending_item ''s1'' ''bad'',
                    pending_item ''s2'' ''p'']"
      and w' = world_two_answered
      and items' = "[(KStr ''s0'', given_answer ''s0'' ''ans''),
                     (KStr ''s1'', given_answer ''s1'' ''bad'')]"
      and tasks' = "[given_answer ''s0'' ''ans'', given_answer ''s1'' ''bad'']"]
  from c h1 have c1:
    "dget (infer_worker flaky_env (pending_item ''s1'' ''bad'')) ''answer'' =
       JStr (infer_error_msg flaky_env (pending_item ''s1'' ''bad'') api_exn)"
    "is_error_answer (dget (infer_worker flaky_env (pending_item ''s1'' ''bad'')) ''answer'')"
    by blast+
  from c have c2:
    "dget (infer_worker flaky_env (pending_item ''s1'' ''bad'')) ''inference_duration_sec'' =
       JFloat 2"
    "dget (eval_worker flaky_env (given_answer ''s1'' ''bad'')) ''evaluation_duration_sec'' =
       JFloat 3"
    unfolding t by blast+
  from c h3 have c3:
    "dget (eval_worker flaky_env (given_answer ''s1'' ''bad'')) ''evaluation_results'' =
       JObj [(''error'', JStr (eval_error_msg flaky_env (given_answer ''s1'' ''bad'') eval_exn))]"
    "is_eval_error (dget (eval_worker flaky_env (given_answer ''s1'' ''bad'')) ''evaluation_results'')"
    by blast+
  from c h5 have
    "\<exists>w1 items1.
       drain (infer_worker flaky_env) (append_to_infer_log flaky_env)
         [pending_item ''s0'' ''p'', pending_item ''s1'' ''bad'', pending_item ''s2'' ''p'']
         (world_three_prompted,
          [(KStr ''s0'', pending_item ''s0'' ''p''), (KStr ''s1'', pending_item ''s1'' ''bad''),
           (KStr ''s2'', pending_item ''s2'' ''p'')], 0, True) =
         (w1, items1,
          length [pending_item ''s0'' ''p'', pending_item ''s1'' ''bad'', pending_item ''s2'' ''p''],
          True) \<and>
       file_lines w1 InferLog =
         file_lines world_three_prompted InferLog @
         appended_lines flaky_env InferLog
           (map (infer_worker flaky_env)
              [pending_item ''s0'' ''p'', pending_item ''s1'' ''bad'', pending_item ''s2'' ''p''])"
    by blast
  then have c5:
    "\<exists>w1 items1.
      drain (infer_worker flaky_env) (append_to_infer_log flaky_env)
        [pending_item ''s0'' ''p'', pending_item ''s1'' ''bad'', pending_item ''s2'' ''p'']
        (world_three_prompted,
         [(KStr ''s0'', pending_item ''s0'' ''p''), (KStr ''s1'', pending_item ''s1'' ''bad''),
          (KStr ''s2'', pending_item ''s2'' ''p'')], 0, True) = (w1, items1, 3, True) \<and>
      file_lines w1 InferLog =
        [Doc (JObj (infer_worker flaky_env (pending_item ''s0'' ''p''))),
         Doc (JObj (infer_worker flaky_env (pending_item ''s1'' ''bad''))),
         Doc (JObj (infer_worker flaky_env (pending_item ''s2'' ''p'')))]"
    by (simp del: drain.simps add: l a eval_nat_numeral)
  from c h6 have
    "\<exists>w1 items1.
       drain (eval_worker flaky_env) (append_to_eval_log flaky_env)
         [given_answer ''s0'' ''ans'', given_answer ''s1'' ''bad'']
         (world_two_answered,
          [(KStr ''s0'', given_answer ''s0'' ''ans''), (KStr ''s1'', given_answer ''s1'' ''bad'')],
          0, True) =
         (w1, items1, length [given_answer ''s0'' ''ans'', given_answer ''s1'' ''bad''], True) \<and>
       file_lines w1 EvalLog =
         file_lines world_two_answered EvalLog @
         appended_lines flaky_env EvalLog
           (map (eval_worker flaky_env) [given_answer ''s0'' ''ans'', given_answer ''s1'' ''bad''])"
    by blast
  then have c6:
    "\<exists>w1 items1.
      drain (eval_worker flaky_env) (append_to_eval_log flaky_env)
        [given_answer ''s0'' ''ans'', given_answer ''s1'' ''bad'']
        (world_two_answered,
         [(KStr ''s0'', given_answer ''s0'' ''ans''), (KStr ''s1'', given_answer ''s1'' ''bad'')],
         0, True) = (w1, items1, 2, True) \<and>
      file_lines w1 EvalLog =
        [Doc (JObj (eval_worker flaky_env (given_answer ''s0'' ''ans''))),
         Doc (JObj (eval_worker flaky_env (given_answer ''s1'' ''bad'')))]"
    by (simp del: drain.simps add: l a eval_nat_numeral)
  show ?thesis
    by (intro conjI) (fact h1 h2 h3 h4 h5 h6 c1 c2 c3 c5 c6)+
qed

subsection \<open>The pre-check of the evaluation stage\<close>








subsection \<open>Hierarchical aggregation\<close>





























text \<open>
  Claim C2 fails on the code. The check of the evaluation result comes first in the loop
  and leaves the iteration with \<^verbatim>\<open>continue\<close>, so the timing fields of a record whose
  evaluation failed never reach the statistics, although the comment at the timing code
  says they exist regardless of evaluation success. Of two records under \<^verbatim>\<open>a/b\<close> with
  inference durations 2 and 4, the second with an evaluation error, only the first is
  counted: sum 2 and one sample, where the claim has sum 6 and two samples.
\<close>

theorem timing_skipped_for_invalid_evaluation:
  "analyze_line quiet_env
     (Doc (JObj (timed_item ''r2'' (JObj [(''error'', JStr ''boom'')]) 4 5))) ([], 0) = ([], 0) \<and>
   stat (fst (collect_stats quiet_env timed_lines)) ''a/b'' ''inference_duration_sec'' =
     Some (2, 1) \<and>
   stat (fst (collect_stats quiet_env timed_lines)) ''a'' ''inference_duration_sec'' =
     Some (2, 1) \<and>
   stat (fst (collect_stats quiet_env timed_lines)) ''a/b'' ''evaluation_duration_sec'' =
     Some (3, 1) \<and>
   analyze_hierarchical_metrics quiet_env world_timed Report =
     Some [Doc (JObj
       [(''a'', JObj
          [(''evaluation_duration_sec'', JObj [(''average'', JFloat 3), (''samples'', JInt 1)]),
           (''inference_duration_sec'', JObj [(''average'', JFloat 2), (''samples'', JInt 1)]),
           (''score'', JObj [(''average'', JFloat (4 / 5)), (''samples'', JInt 1)])]),
        (''a/b'', JObj
          [(''evaluation_duration_sec'', JObj [(''average'', JFloat 3), (''samples'', JInt 1)]),
           (''inference_duration_sec'', JObj [(''average'', JFloat 2), (''samples'', JInt 1)]),
           (''score'', JObj [(''average'', JFloat (4 / 5)), (''samples'', JInt 1)])])])]"
  by code_simp

subsection \<open>A second run after a completed one\<close>



















end
